theory Spec2Isabelle
  imports Complex_Main "HOL-Library.AList"
begin

section \<open>JavaScript values\<close>

text \<open>
  The values that flow through sockets and through \<^verbatim>\<open>nodeData.outputs\<close>. Numbers are exact
  rationals with the three non-finite values of the language; binary rounding is not
  modelled. \<open>VBuiltin n\<close> stands for the member \<open>n\<close> that every plain object inherits from
  \<^verbatim>\<open>Object.prototype\<close> (a function object, or the prototype itself for \<^verbatim>\<open>__proto__\<close>).
  An object is the list of its own properties in insertion order.
\<close>

datatype jsnum = Fin rat | PosInf | NegInf | NaN

datatype val =
    VUndefined
  | VNull
  | VBool bool
  | VNum jsnum
  | VStr string
  | VArr "val list"
  | VObj "(string \<times> val) list"
  | VBuiltin string

datatype 'a outcome = Returns 'a | Throws string 'a

text \<open>\<open>Throws m x\<close>: an exception with message \<open>m\<close> left the function; \<open>x\<close> is the state
  as mutated up to the throw.\<close>

fun stateOf :: "'a outcome \<Rightarrow> 'a" where
  "stateOf (Returns x) = x"
| "stateOf (Throws m x) = x"

fun threw :: "'a outcome \<Rightarrow> bool" where
  "threw (Returns x) = False"
| "threw (Throws m x) = True"

text \<open>A call of user code returns a value, throws a value (any value can be thrown,
  \<^verbatim>\<open>null\<close> included), or does not return.\<close>

datatype callResult = Value val | Raised val | Diverges

text \<open>An \<^verbatim>\<open>Error\<close> object, as far as the engine reads it: its message.\<close>

definition errorObject :: "string \<Rightarrow> val" where
  "errorObject m = VObj [(''message'', VStr m)]"

subsection \<open>Strings\<close>

text \<open>Strings are ASCII. White space is what \<^verbatim>\<open>trim\<close> and the number parsers skip.\<close>

definition isWhite :: "char \<Rightarrow> bool" where
  "isWhite c = (c \<in> set [CHR '' '', CHR 0x09, CHR 0x0A, CHR 0x0B, CHR 0x0C, CHR 0x0D])"

definition trim :: "string \<Rightarrow> string" where
  "trim s = rev (dropWhile isWhite (rev (dropWhile isWhite s)))"

fun splitOn :: "char \<Rightarrow> string \<Rightarrow> string list" where
  "splitOn c [] = [[]]"
| "splitOn c (x # xs) =
     (if x = c then [] # splitOn c xs
      else (case splitOn c xs of [] \<Rightarrow> [[x]] | y # ys \<Rightarrow> (x # y) # ys))"

fun indexOf :: "'a \<Rightarrow> 'a list \<Rightarrow> nat option" where
  "indexOf c [] = None"
| "indexOf c (x # xs) = (if c = x then Some 0 else map_option Suc (indexOf c xs))"

definition digitVal :: "char \<Rightarrow> nat option" where
  "digitVal c = indexOf c ''0123456789''"

definition isDigit :: "char \<Rightarrow> bool" where
  "isDigit c = (digitVal c \<noteq> None)"

definition digitsValue :: "string \<Rightarrow> nat" where
  "digitsValue ds = foldl (\<lambda>a c. 10 * a + (case digitVal c of None \<Rightarrow> 0 | Some d \<Rightarrow> d)) 0 ds"

function showNat :: "nat \<Rightarrow> string" where
  "showNat n = (if n < 10 then [''0123456789'' ! n] else showNat (n div 10) @ [''0123456789'' ! (n mod 10)])"
  by pat_completeness auto
termination
  by (relation "measure id") auto

declare showNat.simps [simp del]

definition joinWith :: "string \<Rightarrow> string list \<Rightarrow> string" where
  "joinWith sep xs = (case xs of [] \<Rightarrow> [] | y # ys \<Rightarrow> foldl (\<lambda>a b. a @ sep @ b) y ys)"

subsection \<open>Numbers\<close>

text \<open>\<^verbatim>\<open>parseFloat\<close> on a string: leading white space, a sign, then \<^verbatim>\<open>Infinity\<close> or the
  longest decimal literal (digits, fraction, exponent); \<open>NaN\<close> when there is none.\<close>

definition parseExponent :: "string \<Rightarrow> int" where
  "parseExponent r =
     (case r of
        [] \<Rightarrow> 0
      | e # r1 \<Rightarrow>
          (if e = CHR ''e'' \<or> e = CHR ''E'' then
             (case r1 of
                [] \<Rightarrow> 0
              | sg # r2 \<Rightarrow>
                  (if sg = CHR ''-'' then
                     (if takeWhile isDigit r2 = [] then 0 else - int (digitsValue (takeWhile isDigit r2)))
                   else if sg = CHR ''+'' then int (digitsValue (takeWhile isDigit r2))
                   else int (digitsValue (takeWhile isDigit r1))))
           else 0))"

definition parseUnsigned :: "string \<Rightarrow> jsnum" where
  "parseUnsigned s =
     (if take 8 s = ''Infinity'' then PosInf
      else
        (let ip = takeWhile isDigit s;
             r = drop (length ip) s;
             fp = (case r of [] \<Rightarrow> [] | d # r1 \<Rightarrow> if d = CHR ''.'' then takeWhile isDigit r1 else []);
             r2 = (case r of [] \<Rightarrow> [] | d # r1 \<Rightarrow> if d = CHR ''.'' then drop (length fp) r1 else r)
         in if ip = [] \<and> fp = [] then NaN
            else
              (let m = (of_nat (digitsValue (ip @ fp)) :: rat) / 10 ^ length fp;
                   e = parseExponent r2
               in Fin (if 0 \<le> e then m * 10 ^ nat e else m / 10 ^ nat (- e)))))"

fun negate :: "jsnum \<Rightarrow> jsnum" where
  "negate (Fin r) = Fin (- r)"
| "negate PosInf = NegInf"
| "negate NegInf = PosInf"
| "negate NaN = NaN"

definition parseFloatStr :: "string \<Rightarrow> jsnum" where
  "parseFloatStr s =
     (case dropWhile isWhite s of
        [] \<Rightarrow> NaN
      | c # cs \<Rightarrow>
          (if c = CHR ''-'' then negate (parseUnsigned cs)
           else if c = CHR ''+'' then parseUnsigned cs
           else parseUnsigned (c # cs)))"

fun addNum :: "jsnum \<Rightarrow> jsnum \<Rightarrow> jsnum" where
  "addNum (Fin a) (Fin b) = Fin (a + b)"
| "addNum NaN _ = NaN"
| "addNum _ NaN = NaN"
| "addNum PosInf NegInf = NaN"
| "addNum NegInf PosInf = NaN"
| "addNum PosInf _ = PosInf"
| "addNum _ PosInf = PosInf"
| "addNum NegInf _ = NegInf"
| "addNum _ NegInf = NegInf"

text \<open>Division by a positive count, as \<^verbatim>\<open>sum / rows.length\<close> needs it.\<close>

fun divByCount :: "jsnum \<Rightarrow> nat \<Rightarrow> jsnum" where
  "divByCount (Fin a) n = Fin (a / of_nat n)"
| "divByCount x n = x"

subsection \<open>Truthiness, conversions, property access\<close>

fun truthy :: "val \<Rightarrow> bool" where
  "truthy VUndefined = False"
| "truthy VNull = False"
| "truthy (VBool b) = b"
| "truthy (VNum (Fin r)) = (r \<noteq> 0)"
| "truthy (VNum NaN) = False"
| "truthy (VNum _) = True"
| "truthy (VStr s) = (s \<noteq> [])"
| "truthy (VArr _) = True"
| "truthy (VObj _) = True"
| "truthy (VBuiltin _) = True"

text \<open>\<^verbatim>\<open>a || b\<close>\<close>

definition orElse :: "val \<Rightarrow> val \<Rightarrow> val" where
  "orElse a b = (if truthy a then a else b)"

text \<open>\<^verbatim>\<open>String(v)\<close>. The text of a number and of a built-in function is the engine's: the
  parameter \<open>fmt\<close> supplies it.\<close>

fun toStringJS :: "(val \<Rightarrow> string) \<Rightarrow> val \<Rightarrow> string" where
  "toStringJS fmt VUndefined = ''undefined''"
| "toStringJS fmt VNull = ''null''"
| "toStringJS fmt (VBool b) = (if b then ''true'' else ''false'')"
| "toStringJS fmt (VNum n) = fmt (VNum n)"
| "toStringJS fmt (VStr s) = s"
| "toStringJS fmt (VArr xs) =
     joinWith '','' (map (\<lambda>x. if x = VUndefined \<or> x = VNull then [] else toStringJS fmt x) xs)"
| "toStringJS fmt (VObj kvs) = ''[object Object]''"
| "toStringJS fmt (VBuiltin n) = fmt (VBuiltin n)"

definition objectPrototypeKeys :: "string list" where
  "objectPrototypeKeys =
     [''constructor'', ''toString'', ''toLocaleString'', ''valueOf'', ''hasOwnProperty'',
      ''isPrototypeOf'', ''propertyIsEnumerable'', ''__proto__'', ''__defineGetter__'',
      ''__defineSetter__'', ''__lookupGetter__'', ''__lookupSetter__'']"

text \<open>\<^verbatim>\<open>o[k]\<close> on a plain object: the own property, else the inherited member.\<close>

definition objGet :: "(string \<times> val) list \<Rightarrow> string \<Rightarrow> val" where
  "objGet kvs k =
     (case map_of kvs k of
        Some v \<Rightarrow> v
      | None \<Rightarrow> if k \<in> set objectPrototypeKeys then VBuiltin k else VUndefined)"

definition isArrayIndex :: "string \<Rightarrow> bool" where
  "isArrayIndex s =
     (s \<noteq> [] \<and> list_all isDigit s \<and> (s = ''0'' \<or> hd s \<noteq> CHR ''0'') \<and> digitsValue s < 2 ^ 32 - 1)"

definition typeErrorRead :: "string \<Rightarrow> string" where
  "typeErrorRead what = ''Cannot read properties of '' @ what"

text \<open>\<^verbatim>\<open>v[k]\<close> on any value. Reading a property of \<^verbatim>\<open>undefined\<close> or \<^verbatim>\<open>null\<close> throws a
  TypeError. Of arrays and strings the own properties (elements and \<^verbatim>\<open>length\<close>) are
  modelled, their inherited methods are not.\<close>

fun getProp :: "val \<Rightarrow> string \<Rightarrow> string + val" where
  "getProp VUndefined k = Inl (typeErrorRead ''undefined'')"
| "getProp VNull k = Inl (typeErrorRead ''null'')"
| "getProp (VObj kvs) k = Inr (objGet kvs k)"
| "getProp (VArr xs) k =
     Inr (if k = ''length'' then VNum (Fin (of_nat (length xs)))
          else if isArrayIndex k \<and> digitsValue k < length xs then xs ! digitsValue k
          else VUndefined)"
| "getProp (VStr s) k =
     Inr (if k = ''length'' then VNum (Fin (of_nat (length s)))
          else if isArrayIndex k \<and> digitsValue k < length s then VStr [s ! digitsValue k]
          else VUndefined)"
| "getProp v k = Inr VUndefined"

text \<open>Own enumerable keys in the order the language enumerates them: array indices
  ascending, then the other keys in insertion order.\<close>

definition ownKeys :: "(string \<times> val) list \<Rightarrow> string list" where
  "ownKeys kvs =
     sort_key digitsValue (filter isArrayIndex (map fst kvs)) @ filter (\<lambda>k. \<not> isArrayIndex k) (map fst kvs)"

fun ownEntries :: "val \<Rightarrow> (string \<times> val) list" where
  "ownEntries (VObj kvs) = map (\<lambda>k. (k, objGet kvs k)) (ownKeys kvs)"
| "ownEntries (VArr xs) = map (\<lambda>i. (showNat i, xs ! i)) [0..<length xs]"
| "ownEntries (VStr s) = map (\<lambda>i. (showNat i, VStr [s ! i])) [0..<length s]"
| "ownEntries v = []"

text \<open>\<^verbatim>\<open>{...a, ...b}\<close>\<close>

definition spreadInto :: "(string \<times> val) list \<Rightarrow> val \<Rightarrow> (string \<times> val) list" where
  "spreadInto acc v = fold (\<lambda>(k, x) o'. AList.update k x o') (ownEntries v) acc"

definition spread2 :: "val \<Rightarrow> val \<Rightarrow> val" where
  "spread2 a b = VObj (spreadInto (spreadInto [] a) b)"

text \<open>The key comparison of \<^verbatim>\<open>Map\<close> (SameValueZero). Primitive values compare by value
  (\<open>NaN\<close> equals itself, the two zeros are one rational). Objects and arrays compare by
  reference: two keys with different contents are different objects, and whether two keys
  with the same contents are one object is a fact of the engine's heap, which the values
  do not determine. The first argument is the heap's answer for the two keys compared.\<close>

fun sameValueZero :: "bool \<Rightarrow> val \<Rightarrow> val \<Rightarrow> bool" where
  "sameValueZero oneObject (VArr xs) b = (VArr xs = b \<and> oneObject)"
| "sameValueZero oneObject (VObj kvs) b = (VObj kvs = b \<and> oneObject)"
| "sameValueZero oneObject a b = (a = b)"

text \<open>\<^verbatim>\<open>new Map(entries).get(k)\<close>: a later entry with the same key replaces the earlier, so
  the result is the value of the last entry whose key is \<open>k\<close>. \<open>oneObject j\<close> is the heap's
  answer for the key of entry \<open>j\<close> and \<open>k\<close>.\<close>

definition mapGet :: "(nat \<Rightarrow> bool) \<Rightarrow> (val \<times> val) list \<Rightarrow> val \<Rightarrow> val" where
  "mapGet oneObject entries k =
     (case filter (\<lambda>(j, e). sameValueZero (oneObject j) (fst e) k) (enumerate 0 entries) of
        [] \<Rightarrow> VUndefined
      | e # es \<Rightarrow> snd (snd (last (e # es))))"

section \<open>The editor state\<close>

text \<open>
  A node's DOM element is reduced to what the engine reads and writes: its id, its
  position and size styles, the form controls of its content template in document order,
  and the text of its \<^verbatim>\<open>.node-status\<close> element when the template has one.
  An absent \<^verbatim>\<open>data-param\<close> or \<^verbatim>\<open>data-output\<close> attribute is the empty string.
  Values interpolated into a template are taken to be free of HTML markup.
  The fields \<^verbatim>\<open>inputs\<close> and \<^verbatim>\<open>state\<close> of the program's node object are never read and are
  left out.
\<close>

datatype tagKind = Textarea | TextInput | Checkbox | Select

record control =
  tagName :: tagKind
  dataParam :: string
  dataOutput :: string
  cvalue :: string
  cchecked :: bool

record endpoint =
  node :: string
  socket :: string

record conn =
  cfrom :: endpoint
  cto :: endpoint

record nodeData =
  elementId :: string
  styleLeft :: int
  styleTop :: int
  styleWidth :: string
  styleHeight :: string
  controls :: "control list"
  status :: "string option"
  ntype :: string
  outputs :: "(string \<times> val) list"
  properties :: val
  codeBlockProperties :: val
  isContainer :: bool
  children :: "string list"
  parentId :: "string option"

text \<open>A snapshot is the text \<^verbatim>\<open>JSON.stringify(state, null, 2)\<close>. A text is modelled by the
  document it denotes: \<^verbatim>\<open>JSON.stringify\<close> is deterministic and injective on the documents
  \<^verbatim>\<open>serialize\<close> builds, and \<^verbatim>\<open>JSON.parse\<close> inverts it, so two snapshots are the same text
  exactly when they are the same document. A member that is absent from the top-level
  object is \<open>None\<close>.\<close>

datatype cval = CStr string | CBool bool

record nodeState =
  sid :: string
  stype :: string
  sx :: int
  sy :: int
  swidth :: string
  sheight :: string
  content :: "(string \<times> cval) list"
  sproperties :: val
  scodeBlockProperties :: val
  sparentId :: "string option"
  schildren :: "string list"

record session =
  snodes :: "nodeState list option"
  sconnections :: "conn list option"
  scanvasOffset :: "(rat \<times> rat) option"
  sscale :: "rat option"
  snodeCounter :: "int option"

datatype jsonText = NotJson | JsonNull | JsonDoc session

record history =
  undoStack :: "jsonText list"
  redoStack :: "jsonText list"
  isRestoring :: bool

text \<open>\<open>nodes\<close> is the \<^verbatim>\<open>Map\<close> of the editor in insertion order. \<open>alerts\<close> collects the
  messages passed to \<^verbatim>\<open>alert\<close>. \<open>processedLog\<close> is not a field of the program: it records, in
  order, the id of every existing node \<^verbatim>\<open>processNodeData\<close> was run on.\<close>

record ide =
  nodes :: "(string \<times> nodeData) list"
  connections :: "conn list"
  connectionStart :: "endpoint option"
  nodeCounter :: int
  canvasOffset :: "rat \<times> rat"
  scale :: rat
  hist :: history
  alerts :: "string list"
  processedLog :: "string list"

definition maxHistory :: nat where
  "maxHistory = 50"

text \<open>What the engine takes from its surroundings. \<open>newFunction body\<close> is
  \<^verbatim>\<open>new Function('row', body)\<close>: the message of the \<^verbatim>\<open>SyntaxError\<close> it throws, or the
  function, which is applied to the arguments \<^verbatim>\<open>filter\<close> and \<^verbatim>\<open>map\<close> pass to their callback
  (the row, its index, the array). User code is taken to be a function of its arguments
  and to leave the editor alone; it need not return. \<open>formatValue\<close> is the engine's text of
  a number or built-in. \<open>sameObject s nodeId i j\<close> says, for the merge processor run on the
  node \<open>nodeId\<close> of the graph \<open>s\<close>, whether the join key of row \<open>i\<close> of its left input and the
  join key of row \<open>j\<close> of its right input are one object; it is asked only about objects
  with the same contents. \<open>externalProcessor\<close> and \<open>externalCreator\<close> stand for the
  processors and content templates of the node types that wrap a library or a browser
  service; of such a processor \<open>None\<close> says that it does not return.\<close>

record host =
  newFunction :: "string \<Rightarrow> string + (val list \<Rightarrow> callResult)"
  formatValue :: "val \<Rightarrow> string"
  sameObject :: "ide \<Rightarrow> string \<Rightarrow> nat \<Rightarrow> nat \<Rightarrow> bool"
  externalProcessor :: "string \<Rightarrow> ide \<Rightarrow> nodeData \<Rightarrow> nodeData outcome option"
  externalCreator :: "string \<Rightarrow> (string \<times> cval) list \<Rightarrow> control list \<times> string option"

subsection \<open>Element queries and writes\<close>

definition nodesGet :: "ide \<Rightarrow> string \<Rightarrow> nodeData option" where
  "nodesGet s nodeId = map_of (nodes s) nodeId"

definition nodesSet :: "string \<Rightarrow> nodeData \<Rightarrow> ide \<Rightarrow> ide" where
  "nodesSet nodeId nd s = s\<lparr>nodes := AList.update nodeId nd (nodes s)\<rparr>"

definition queryTextarea :: "nodeData \<Rightarrow> control option" where
  "queryTextarea nd = find (\<lambda>c. tagName c = Textarea) (controls nd)"

definition queryParam :: "tagKind list \<Rightarrow> string \<Rightarrow> nodeData \<Rightarrow> control option" where
  "queryParam kinds p nd = find (\<lambda>c. tagName c \<in> set kinds \<and> dataParam c = p) (controls nd)"

fun updateFirst :: "('a \<Rightarrow> bool) \<Rightarrow> ('a \<Rightarrow> 'a) \<Rightarrow> 'a list \<Rightarrow> 'a list" where
  "updateFirst P f [] = []"
| "updateFirst P f (x # xs) = (if P x then f x # xs else x # updateFirst P f xs)"

definition typeErrorSet :: string where
  "typeErrorSet = ''Cannot set properties of null''"

text \<open>\<^verbatim>\<open>textarea.value = v\<close> for \<^verbatim>\<open>textarea = element.querySelector('textarea')\<close>\<close>

definition setTextarea :: "string \<Rightarrow> nodeData \<Rightarrow> nodeData outcome" where
  "setTextarea v nd =
     (case queryTextarea nd of
        None \<Rightarrow> Throws typeErrorSet nd
      | Some _ \<Rightarrow> Returns (nd\<lparr>controls := updateFirst (\<lambda>c. tagName c = Textarea) (\<lambda>c. c\<lparr>cvalue := v\<rparr>) (controls nd)\<rparr>))"

text \<open>\<^verbatim>\<open>statusDiv.textContent = msg\<close>\<close>

definition setStatus :: "string \<Rightarrow> nodeData \<Rightarrow> nodeData outcome" where
  "setStatus msg nd =
     (case status nd of
        None \<Rightarrow> Throws typeErrorSet nd
      | Some _ \<Rightarrow> Returns (nd\<lparr>status := Some msg\<rparr>))"

definition setOutput :: "string \<Rightarrow> val \<Rightarrow> nodeData \<Rightarrow> nodeData" where
  "setOutput k v nd = nd\<lparr>outputs := AList.update k v (outputs nd)\<rparr>"

text \<open>\<^verbatim>\<open>this.connections.find(c => c.to.node === id && c.to.socket === name)\<close>\<close>

definition findInput :: "ide \<Rightarrow> string \<Rightarrow> string \<Rightarrow> conn option" where
  "findInput s nodeId name = find (\<lambda>c. node (cto c) = nodeId \<and> socket (cto c) = name) (connections s)"

text \<open>\<^verbatim>\<open>this.nodes.get(conn.from.node).outputs[conn.from.socket]\<close>: a TypeError when the
  source node does not exist.\<close>

definition readSource :: "ide \<Rightarrow> conn \<Rightarrow> string + val" where
  "readSource s c =
     (case nodesGet s (node (cfrom c)) of
        None \<Rightarrow> Inl (typeErrorRead ''undefined'')
      | Some sourceNode \<Rightarrow> Inr (objGet (outputs sourceNode) (socket (cfrom c))))"

section \<open>Node processors\<close>

definition processTextNode :: "host \<Rightarrow> ide \<Rightarrow> nodeData \<Rightarrow> nodeData outcome" where
  "processTextNode h s nodeData =
     (case findInput s (elementId nodeData) ''text_in'' of
        Some inputConn \<Rightarrow>
          (case readSource s inputConn of
             Inl e \<Rightarrow> Throws e nodeData
           | Inr v \<Rightarrow>
               (let inputText = orElse v (VStr []) in
                case setTextarea (toStringJS (formatValue h) inputText) nodeData of
                  Throws e nd \<Rightarrow> Throws e nd
                | Returns nd \<Rightarrow> Returns (setOutput ''text_out'' inputText nd)))
      | None \<Rightarrow>
          (case queryTextarea nodeData of
             None \<Rightarrow> Throws (typeErrorRead ''null'') nodeData
           | Some textarea \<Rightarrow> Returns (setOutput ''text_out'' (VStr (cvalue textarea)) nodeData)))"

definition processImportNode :: "ide \<Rightarrow> nodeData \<Rightarrow> nodeData outcome" where
  "processImportNode s nodeData =
     (case queryTextarea nodeData of
        None \<Rightarrow> Throws (typeErrorRead ''null'') nodeData
      | Some textarea \<Rightarrow> Returns (setOutput ''data_out'' (VStr (cvalue textarea)) nodeData))"

definition processXmlNode :: "ide \<Rightarrow> nodeData \<Rightarrow> nodeData outcome" where
  "processXmlNode s nodeData =
     (case setStatus ''XML processing is not yet implemented.'' nodeData of
        Throws e nd \<Rightarrow> Throws e nd
      | Returns nd \<Rightarrow> Returns (setOutput ''data_out'' (VObj []) nd))"

definition processSplitNode :: "ide \<Rightarrow> nodeData \<Rightarrow> nodeData outcome" where
  "processSplitNode s nodeData =
     (case setStatus ''Split logic is not yet implemented.'' nodeData of
        Throws e nd \<Rightarrow> Throws e nd
      | Returns nd \<Rightarrow> Returns (setOutput ''data_out_2'' (VArr []) (setOutput ''data_out_1'' (VArr []) nd)))"

text \<open>\<^verbatim>\<open>array.filter(f)\<close> and \<^verbatim>\<open>array.map(f)\<close> for user code \<open>f\<close>, from the element with index
  \<open>i\<close> on: the callback gets the element, its index and the whole array. The first call,
  in element order, that throws or does not return ends the run: \<open>None\<close> when it does not
  return, the thrown value on the left when it throws.\<close>

fun filterFrom :: "(val list \<Rightarrow> callResult) \<Rightarrow> val list \<Rightarrow> nat \<Rightarrow> val list \<Rightarrow> (val + val list) option" where
  "filterFrom f arr i [] = Some (Inr [])"
| "filterFrom f arr i (x # xs) =
     (case f [x, VNum (Fin (of_nat i)), VArr arr] of
        Diverges \<Rightarrow> None
      | Raised e \<Rightarrow> Some (Inl e)
      | Value keep \<Rightarrow>
          (case filterFrom f arr (Suc i) xs of
             None \<Rightarrow> None
           | Some (Inl e) \<Rightarrow> Some (Inl e)
           | Some (Inr ys) \<Rightarrow> Some (Inr (if truthy keep then x # ys else ys))))"

definition arrayFilter :: "(val list \<Rightarrow> callResult) \<Rightarrow> val list \<Rightarrow> (val + val list) option" where
  "arrayFilter f arr = filterFrom f arr 0 arr"

fun mapFrom :: "(val list \<Rightarrow> callResult) \<Rightarrow> val list \<Rightarrow> nat \<Rightarrow> val list \<Rightarrow> (val + val list) option" where
  "mapFrom f arr i [] = Some (Inr [])"
| "mapFrom f arr i (x # xs) =
     (case f [x, VNum (Fin (of_nat i)), VArr arr] of
        Diverges \<Rightarrow> None
      | Raised e \<Rightarrow> Some (Inl e)
      | Value y \<Rightarrow>
          (case mapFrom f arr (Suc i) xs of
             None \<Rightarrow> None
           | Some (Inl e) \<Rightarrow> Some (Inl e)
           | Some (Inr ys) \<Rightarrow> Some (Inr (y # ys))))"

definition arrayMapCall :: "(val list \<Rightarrow> callResult) \<Rightarrow> val list \<Rightarrow> (val + val list) option" where
  "arrayMapCall f arr = mapFrom f arr 0 arr"

text \<open>\<^verbatim>\<open>array.map(f)\<close> for a callback of the engine's own, which returns or throws an error
  with a message.\<close>

fun arrayMap :: "('a \<Rightarrow> string + 'b) \<Rightarrow> 'a list \<Rightarrow> string + 'b list" where
  "arrayMap f [] = Inr []"
| "arrayMap f (x # xs) =
     (case f x of
        Inl e \<Rightarrow> Inl e
      | Inr y \<Rightarrow> (case arrayMap f xs of Inl e \<Rightarrow> Inl e | Inr ys \<Rightarrow> Inr (y # ys)))"

text \<open>The \<^verbatim>\<open>catch (e)\<close> block shared by the filter and transform processors: it empties
  \<^verbatim>\<open>data_out\<close>, then reads \<^verbatim>\<open>e.message\<close> for the status text. The caught value is whatever
  was thrown; reading a property of \<^verbatim>\<open>null\<close> or \<^verbatim>\<open>undefined\<close> throws a TypeError, which
  leaves the block and the processor.\<close>

definition catchToStatus :: "(val \<Rightarrow> string) \<Rightarrow> val \<Rightarrow> nodeData \<Rightarrow> nodeData outcome" where
  "catchToStatus fmt e nodeData =
     (let emptied = setOutput ''data_out'' (VArr []) nodeData in
      case getProp e ''message'' of
        Inl err \<Rightarrow> Throws err emptied
      | Inr message \<Rightarrow> setStatus (''Error: '' @ toStringJS fmt message) emptied)"

text \<open>The filter and transform processors run user code: \<open>None\<close> says that it did not
  return.\<close>

definition processFilterNode :: "host \<Rightarrow> ide \<Rightarrow> nodeData \<Rightarrow> nodeData outcome option" where
  "processFilterNode h s nodeData =
     (case findInput s (elementId nodeData) ''data_in'' of
        Some inputConn \<Rightarrow>
          (case readSource s inputConn of
             Inl e \<Rightarrow> Some (Throws e nodeData)
           | Inr inputData \<Rightarrow>
               (case queryParam [Textarea] ''condition'' nodeData of
                  None \<Rightarrow> Some (Throws (typeErrorRead ''null'') nodeData)
                | Some el \<Rightarrow>
                    (case inputData of
                       VArr rows \<Rightarrow>
                         (if cvalue el = [] then
                            Some (setStatus [] (setOutput ''data_out'' inputData nodeData))
                          else
                            (case newFunction h (''return '' @ cvalue el) of
                               Inl m \<Rightarrow> Some (catchToStatus (formatValue h) (errorObject m) nodeData)
                             | Inr filterFunc \<Rightarrow>
                                 (case arrayFilter filterFunc rows of
                                    None \<Rightarrow> None
                                  | Some (Inl e) \<Rightarrow> Some (catchToStatus (formatValue h) e nodeData)
                                  | Some (Inr kept) \<Rightarrow>
                                      (case setStatus
                                              (''Filtered '' @ showNat (length rows) @ '' rows to ''
                                                 @ showNat (length kept) @ ''.'')
                                              (setOutput ''data_out'' (VArr kept) nodeData) of
                                         Throws m nd \<Rightarrow> Some (catchToStatus (formatValue h) (errorObject m) nd)
                                       | Returns nd \<Rightarrow> Some (Returns nd)))))
                     | _ \<Rightarrow>
                         Some (setStatus ''Error: Input is not an array.''
                                 (setOutput ''data_out'' (VArr []) nodeData)))))
      | None \<Rightarrow> Some (setStatus ''No input connected.'' (setOutput ''data_out'' (VArr []) nodeData)))"

definition processTransformNode :: "host \<Rightarrow> ide \<Rightarrow> nodeData \<Rightarrow> nodeData outcome option" where
  "processTransformNode h s nodeData =
     (case findInput s (elementId nodeData) ''data_in'' of
        Some inputConn \<Rightarrow>
          (case readSource s inputConn of
             Inl e \<Rightarrow> Some (Throws e nodeData)
           | Inr inputData \<Rightarrow>
               (case queryParam [Textarea] ''logic'' nodeData of
                  None \<Rightarrow> Some (Throws (typeErrorRead ''null'') nodeData)
                | Some el \<Rightarrow>
                    (case inputData of
                       VArr rows \<Rightarrow>
                         (case newFunction h (cvalue el) of
                            Inl m \<Rightarrow> Some (catchToStatus (formatValue h) (errorObject m) nodeData)
                          | Inr transformFunc \<Rightarrow>
                              (case arrayMapCall transformFunc rows of
                                 None \<Rightarrow> None
                               | Some (Inl e) \<Rightarrow> Some (catchToStatus (formatValue h) e nodeData)
                               | Some (Inr mapped) \<Rightarrow>
                                   (case setStatus (''Transformed '' @ showNat (length rows) @ '' rows.'')
                                           (setOutput ''data_out'' (VArr mapped) nodeData) of
                                      Throws m nd \<Rightarrow> Some (catchToStatus (formatValue h) (errorObject m) nd)
                                    | Returns nd \<Rightarrow> Some (Returns nd))))
                     | _ \<Rightarrow>
                         Some (setStatus ''Error: Input is not an array.''
                                 (setOutput ''data_out'' (VArr []) nodeData)))))
      | None \<Rightarrow> Some (setStatus ''No input connected.'' (setOutput ''data_out'' (VArr []) nodeData)))"

text \<open>\<^verbatim>\<open>key.includes('=') ? key.split('=').map(k => k.trim()) : [key.trim(), key.trim()]\<close>,
  destructured into its first two elements.\<close>

definition joinKeys :: "string \<Rightarrow> string \<times> string" where
  "joinKeys key =
     (if CHR ''='' \<in> set key then
        (case map trim (splitOn CHR ''='' key) of
           l # r # _ \<Rightarrow> (l, r)
         | [l] \<Rightarrow> (l, ''undefined'')
         | [] \<Rightarrow> (''undefined'', ''undefined''))
      else (trim key, trim key))"

text \<open>The callback of \<^verbatim>\<open>data1.map\<close>, for one row of the left input; \<open>oneObject j\<close> is the
  heap's answer for the key of row \<open>j\<close> of the right input and the key of this row.\<close>

definition mergeRow :: "(nat \<Rightarrow> bool) \<Rightarrow> (val \<times> val) list \<Rightarrow> string \<Rightarrow> val \<Rightarrow> string + val" where
  "mergeRow oneObject rightMap leftKey item1 =
     (case getProp item1 leftKey of
        Inl e \<Rightarrow> Inl e
      | Inr k \<Rightarrow>
          (let item2 = mapGet oneObject rightMap k
           in Inr (if truthy item2 then spread2 item1 item2 else item1)))"

definition keyedEntry :: "string \<Rightarrow> val \<Rightarrow> string + (val \<times> val)" where
  "keyedEntry rightKey item = (case getProp item rightKey of Inl e \<Rightarrow> Inl e | Inr k \<Rightarrow> Inr (k, item))"

definition processMergeNode :: "host \<Rightarrow> ide \<Rightarrow> nodeData \<Rightarrow> nodeData outcome" where
  "processMergeNode h s nodeData =
     (case queryParam [TextInput, Checkbox] ''key'' nodeData of
        None \<Rightarrow> Throws (typeErrorRead ''null'') nodeData
      | Some el \<Rightarrow>
          (case (findInput s (elementId nodeData) ''data_in_1'', findInput s (elementId nodeData) ''data_in_2'') of
             (Some conn1, Some conn2) \<Rightarrow>
               (if cvalue el = [] then
                  setStatus ''Join key is required.'' (setOutput ''data_out'' (VArr []) nodeData)
                else
                  (case readSource s conn1 of
                     Inl e \<Rightarrow> Throws e nodeData
                   | Inr data1 \<Rightarrow>
                       (case readSource s conn2 of
                          Inl e \<Rightarrow> Throws e nodeData
                        | Inr data2 \<Rightarrow>
                            (case (data1, data2) of
                               (VArr rows1, VArr rows2) \<Rightarrow>
                                 (case arrayMap (keyedEntry (snd (joinKeys (cvalue el)))) rows2 of
                                    Inl e \<Rightarrow> Throws e nodeData
                                  | Inr rightMap \<Rightarrow>
                                      (case arrayMap
                                              (\<lambda>(i, item1).
                                                  mergeRow (sameObject h s (elementId nodeData) i) rightMap
                                                    (fst (joinKeys (cvalue el))) item1)
                                              (enumerate 0 rows1) of
                                         Inl e \<Rightarrow> Throws e nodeData
                                       | Inr merged \<Rightarrow>
                                           setStatus
                                             (''Merged '' @ showNat (length rows1) @ '' and ''
                                                @ showNat (length rows2) @ '' rows into ''
                                                @ showNat (length merged) @ ''.'')
                                             (setOutput ''data_out'' (VArr merged) nodeData)))
                             | _ \<Rightarrow> setStatus ''Inputs must be arrays.'' (setOutput ''data_out'' (VArr []) nodeData)))))
           | _ \<Rightarrow> setStatus ''Both inputs must be connected.'' (setOutput ''data_out'' (VArr []) nodeData)))"

text \<open>The grouping \<^verbatim>\<open>reduce\<close> of the aggregate processor. The accumulator is a plain
  object: a group key that names an inherited member finds that member instead of a
  group, and \<^verbatim>\<open>push\<close> on it is a TypeError.\<close>

fun groupRows :: "(val \<Rightarrow> string) \<Rightarrow> string \<Rightarrow> val list \<Rightarrow> (string \<times> val) list \<Rightarrow> string + (string \<times> val) list" where
  "groupRows fmt groupBy [] acc = Inr acc"
| "groupRows fmt groupBy (row # rows) acc =
     (case getProp row groupBy of
        Inl e \<Rightarrow> Inl e
      | Inr kv \<Rightarrow>
          (let key = toStringJS fmt kv;
               acc1 = (if truthy (objGet acc key) then acc else AList.update key (VArr []) acc)
           in case objGet acc1 key of
                VArr members \<Rightarrow> groupRows fmt groupBy rows (AList.update key (VArr (members @ [row])) acc1)
              | _ \<Rightarrow> Inl ''acc[key].push is not a function''))"

text \<open>\<^verbatim>\<open>parseFloat(v) || 0\<close>; \<^verbatim>\<open>parseFloat\<close> of a number is that number.\<close>

definition parseFloatOrZero :: "(val \<Rightarrow> string) \<Rightarrow> val \<Rightarrow> jsnum" where
  "parseFloatOrZero fmt v =
     (let n = (case v of VNum m \<Rightarrow> m | _ \<Rightarrow> parseFloatStr (toStringJS fmt v))
      in if truthy (VNum n) then n else Fin 0)"

fun sumRows :: "(val \<Rightarrow> string) \<Rightarrow> string \<Rightarrow> val list \<Rightarrow> jsnum \<Rightarrow> string + jsnum" where
  "sumRows fmt aggKey [] acc = Inr acc"
| "sumRows fmt aggKey (row # rows) acc =
     (case getProp row aggKey of
        Inl e \<Rightarrow> Inl e
      | Inr v \<Rightarrow> sumRows fmt aggKey rows (addNum acc (parseFloatOrZero fmt v)))"

definition aggregateValue :: "(val \<Rightarrow> string) \<Rightarrow> string \<Rightarrow> string \<Rightarrow> val list \<Rightarrow> string + val" where
  "aggregateValue fmt aggFunc aggKey rows =
     (if aggFunc = ''count'' then Inr (VNum (Fin (of_nat (length rows))))
      else if aggFunc = ''sum'' then map_sum id VNum (sumRows fmt aggKey rows (Fin 0))
      else if aggFunc = ''avg'' then
        map_sum id (\<lambda>total. VNum (if length rows > 0 then divByCount total (length rows) else Fin 0))
          (sumRows fmt aggKey rows (Fin 0))
      else Inr VUndefined)"

definition aggregateGroup :: "(val \<Rightarrow> string) \<Rightarrow> string \<Rightarrow> string \<Rightarrow> string \<Rightarrow> (string \<times> val) list \<Rightarrow> string \<Rightarrow> string + val" where
  "aggregateGroup fmt groupBy aggFunc aggKey groups key =
     (case objGet groups key of
        VArr rows \<Rightarrow>
          (case aggregateValue fmt aggFunc aggKey rows of
             Inl e \<Rightarrow> Inl e
           | Inr v \<Rightarrow> Inr (VObj (AList.update (aggFunc @ ''_of_'' @ aggKey) v [(groupBy, VStr key)])))
      | _ \<Rightarrow> Inl (typeErrorRead ''undefined''))"

definition processAggregateNode :: "host \<Rightarrow> ide \<Rightarrow> nodeData \<Rightarrow> nodeData outcome" where
  "processAggregateNode h s nodeData =
     (case (queryParam [TextInput, Checkbox] ''groupBy'' nodeData,
            queryParam [Select] ''aggFunc'' nodeData,
            queryParam [TextInput, Checkbox] ''aggKey'' nodeData) of
        (Some groupByEl, Some aggFuncEl, Some aggKeyEl) \<Rightarrow>
          (case findInput s (elementId nodeData) ''data_in'' of
             None \<Rightarrow> setStatus ''No input connected.'' (setOutput ''data_out'' (VArr []) nodeData)
           | Some inputConn \<Rightarrow>
               (if cvalue groupByEl = [] \<or> cvalue aggKeyEl = [] then
                  setStatus ''Group By and Of Key are required.'' (setOutput ''data_out'' (VArr []) nodeData)
                else
                  (case readSource s inputConn of
                     Inl e \<Rightarrow> Throws e nodeData
                   | Inr (VArr inputData) \<Rightarrow>
                       (case groupRows (formatValue h) (cvalue groupByEl) inputData [] of
                          Inl e \<Rightarrow> Throws e nodeData
                        | Inr groups \<Rightarrow>
                            (case arrayMap
                                    (aggregateGroup (formatValue h) (cvalue groupByEl) (cvalue aggFuncEl)
                                       (cvalue aggKeyEl) groups)
                                    (ownKeys groups) of
                               Inl e \<Rightarrow> Throws e nodeData
                             | Inr result \<Rightarrow>
                                 setStatus
                                   (''Aggregated '' @ showNat (length inputData) @ '' rows into ''
                                      @ showNat (length result) @ '' groups.'')
                                   (setOutput ''data_out'' (VArr result) nodeData)))
                   | Inr _ \<Rightarrow> setStatus ''Input must be an array.'' (setOutput ''data_out'' (VArr []) nodeData))))
      | _ \<Rightarrow> Throws (typeErrorRead ''null'') nodeData)"

section \<open>Propagation\<close>

definition externalTypes :: "string list" where
  "externalTypes =
     [''find_replace'', ''export'', ''csv'', ''json'', ''spell_check'', ''translation'',
      ''summarization'', ''sentiment_analysis'', ''auto_format'', ''template'', ''macro'', ''ocr'',
      ''tts'', ''email'', ''pdf'', ''html_render'', ''qr_code'', ''social_share'', ''screenshot'',
      ''print'']"

text \<open>The registry is an object literal, so \<^verbatim>\<open>this.nodeProcessors[type]\<close> also finds the
  members every object inherits. \<^verbatim>\<open>processNodeData\<close> calls what it finds as a plain function,
  with \<^verbatim>\<open>this\<close> undefined and the node as argument: \<^verbatim>\<open>constructor\<close> (that is \<^verbatim>\<open>Object\<close>)
  and \<^verbatim>\<open>toString\<close> return, the other inherited functions throw a TypeError when they
  convert \<^verbatim>\<open>this\<close> to an object, and \<^verbatim>\<open>__proto__\<close> is an object, which is not callable.\<close>

definition inheritedMember :: "string \<Rightarrow> ide \<Rightarrow> nodeData \<Rightarrow> nodeData outcome option" where
  "inheritedMember t s nodeData =
     Some (if t = ''constructor'' \<or> t = ''toString'' then Returns nodeData
           else if t = ''__proto__'' then Throws ''processor is not a function'' nodeData
           else Throws ''Cannot convert undefined or null to object'' nodeData)"

text \<open>The registry \<^verbatim>\<open>this.nodeProcessors\<close>. A processor reads the graph and mutates its own
  node only, so it is a function from the graph and the node to the node; \<open>None\<close> as its
  result says that it does not return.\<close>

definition nodeProcessors :: "host \<Rightarrow> string \<Rightarrow> (ide \<Rightarrow> nodeData \<Rightarrow> nodeData outcome option) option" where
  "nodeProcessors h t =
     (if t = ''text'' then Some (\<lambda>s nodeData. Some (processTextNode h s nodeData))
      else if t = ''import'' then Some (\<lambda>s nodeData. Some (processImportNode s nodeData))
      else if t = ''xml'' then Some (\<lambda>s nodeData. Some (processXmlNode s nodeData))
      else if t = ''filter'' then Some (processFilterNode h)
      else if t = ''transform'' then Some (processTransformNode h)
      else if t = ''merge'' then Some (\<lambda>s nodeData. Some (processMergeNode h s nodeData))
      else if t = ''split'' then Some (\<lambda>s nodeData. Some (processSplitNode s nodeData))
      else if t = ''aggregate'' then Some (\<lambda>s nodeData. Some (processAggregateNode h s nodeData))
      else if t \<in> set externalTypes then Some (externalProcessor h t)
      else if t \<in> set objectPrototypeKeys then Some (inheritedMember t)
      else None)"

text \<open>\<^verbatim>\<open>array.forEach\<close> with a callback that may throw or not return.\<close>

fun forEachM :: "('a \<Rightarrow> 's \<Rightarrow> 's outcome option) \<Rightarrow> 'a list \<Rightarrow> 's \<Rightarrow> 's outcome option" where
  "forEachM f [] s = Some (Returns s)"
| "forEachM f (x # xs) s =
     (case f x s of
        None \<Rightarrow> None
      | Some (Throws e s') \<Rightarrow> Some (Throws e s')
      | Some (Returns s') \<Rightarrow> forEachM f xs s')"

definition runProcessor :: "host \<Rightarrow> ide \<Rightarrow> nodeData \<Rightarrow> nodeData outcome option" where
  "runProcessor h s nodeData =
     (case nodeProcessors h (ntype nodeData) of
        None \<Rightarrow> Some (Returns nodeData)
      | Some processor \<Rightarrow> processor s nodeData)"

definition stackOverflow :: string where
  "stackOverflow = ''Maximum call stack size exceeded''"

text \<open>\<^verbatim>\<open>processNodeData\<close>. The recursion has no bound in the program; the engine's call
  stack bounds it. The first argument is the number of nested calls of \<^verbatim>\<open>processNodeData\<close>
  the stack still has room for: a call with no room left throws the engine's
  \<^verbatim>\<open>RangeError\<close>, which like every exception that nothing catches ends the calls that led
  to it. \<open>None\<close> says that a processor did not return.\<close>

fun processNodeData :: "host \<Rightarrow> nat \<Rightarrow> string \<Rightarrow> ide \<Rightarrow> ide outcome option" where
  "processNodeData h 0 nodeId s = Some (Throws stackOverflow s)"
| "processNodeData h (Suc depth) nodeId s =
     (case nodesGet s nodeId of
        None \<Rightarrow> Some (Returns s)
      | Some nodeData \<Rightarrow>
          (let s0 = s\<lparr>processedLog := processedLog s @ [nodeId]\<rparr> in
           case runProcessor h s0 nodeData of
             None \<Rightarrow> None
           | Some (Throws e nd) \<Rightarrow> Some (Throws e (nodesSet nodeId nd s0))
           | Some (Returns nd) \<Rightarrow>
               forEachM
                 (\<lambda>c s'. if node (cfrom c) = nodeId then processNodeData h depth (node (cto c)) s'
                         else Some (Returns s'))
                 (connections s0) (nodesSet nodeId nd s0)))"

section \<open>Snapshots\<close>

text \<open>The \<^verbatim>\<open>content\<close> object of a serialized node: every control with a \<^verbatim>\<open>data-param\<close> or
  \<^verbatim>\<open>data-output\<close> attribute, keyed by \<^verbatim>\<open>el.dataset.param || el.dataset.output\<close>.\<close>

definition contentKey :: "control \<Rightarrow> string" where
  "contentKey el = (if dataParam el \<noteq> [] then dataParam el else dataOutput el)"

definition contentValue :: "control \<Rightarrow> cval" where
  "contentValue el = (if tagName el = Checkbox then CBool (cchecked el) else CStr (cvalue el))"

definition serializeContent :: "control list \<Rightarrow> (string \<times> cval) list" where
  "serializeContent els =
     fold (\<lambda>el c. if contentKey el \<noteq> [] then AList.update (contentKey el) (contentValue el) c else c) els []"

definition serializeNode :: "string \<Rightarrow> nodeData \<Rightarrow> nodeState" where
  "serializeNode nodeId nodeData =
     \<lparr>sid = nodeId,
      stype = ntype nodeData,
      sx = styleLeft nodeData,
      sy = styleTop nodeData,
      swidth = styleWidth nodeData,
      sheight = styleHeight nodeData,
      content = serializeContent (controls nodeData),
      sproperties = properties nodeData,
      scodeBlockProperties = codeBlockProperties nodeData,
      sparentId = parentId nodeData,
      schildren = children nodeData\<rparr>"

definition serialize :: "ide \<Rightarrow> jsonText" where
  "serialize s =
     JsonDoc
       \<lparr>snodes = Some (map (\<lambda>(nodeId, nodeData). serializeNode nodeId nodeData) (nodes s)),
        sconnections = Some (connections s),
        scanvasOffset = Some (canvasOffset s),
        sscale = Some (scale s),
        snodeCounter = Some (nodeCounter s)\<rparr>"

section \<open>History\<close>

definition recordState :: "ide \<Rightarrow> ide" where
  "recordState s =
     (if isRestoring (hist s) then s
      else
        (let state = serialize s in
         if undoStack (hist s) \<noteq> [] \<and> last (undoStack (hist s)) = state then s
         else
           (let pushed = undoStack (hist s) @ [state];
                kept = (if length pushed > maxHistory then tl pushed else pushed)
            in s\<lparr>hist := (hist s)\<lparr>undoStack := kept, redoStack := []\<rparr>\<rparr>)))"

section \<open>Creating nodes\<close>

record options =
  optFields :: "(string \<times> cval) list"
  optId :: "string option"
  optWidth :: string
  optHeight :: string
  optProperties :: val
  optCodeBlockProperties :: val
  optParentId :: "string option"
  optChildren :: "string list"
  fromSerialization :: bool

text \<open>\<^verbatim>\<open>${options.k || ''}\<close>, \<^verbatim>\<open>options.k ? .. : ..\<close> and \<^verbatim>\<open>options.k !== false\<close>\<close>

definition optText :: "(string \<times> cval) list \<Rightarrow> string \<Rightarrow> string" where
  "optText given k =
     (case map_of given k of
        Some (CStr v) \<Rightarrow> v
      | Some (CBool b) \<Rightarrow> (if b then ''true'' else [])
      | None \<Rightarrow> [])"

definition optTruthy :: "(string \<times> cval) list \<Rightarrow> string \<Rightarrow> bool" where
  "optTruthy given k =
     (case map_of given k of
        Some (CStr v) \<Rightarrow> v \<noteq> []
      | Some (CBool b) \<Rightarrow> b
      | None \<Rightarrow> False)"

definition optNotFalse :: "(string \<times> cval) list \<Rightarrow> string \<Rightarrow> bool" where
  "optNotFalse given k = (map_of given k \<noteq> Some (CBool False))"

text \<open>The value of a \<^verbatim>\<open>select\<close> whose options are marked \<^verbatim>\<open>selected\<close> by
  \<^verbatim>\<open>options.k === value\<close>: the marked option, else the first.\<close>

definition selectValue :: "string list \<Rightarrow> (string \<times> cval) list \<Rightarrow> string \<Rightarrow> string" where
  "selectValue choices given k =
     (case find (\<lambda>v. map_of given k = Some (CStr v)) choices of
        Some v \<Rightarrow> v
      | None \<Rightarrow> (case choices of [] \<Rightarrow> [] | v # _ \<Rightarrow> v))"

definition textareaOut :: "string \<Rightarrow> string \<Rightarrow> control" where
  "textareaOut name v = \<lparr>tagName = Textarea, dataParam = [], dataOutput = name, cvalue = v, cchecked = False\<rparr>"

definition textareaParam :: "string \<Rightarrow> string \<Rightarrow> control" where
  "textareaParam name v = \<lparr>tagName = Textarea, dataParam = name, dataOutput = [], cvalue = v, cchecked = False\<rparr>"

definition inputParam :: "string \<Rightarrow> string \<Rightarrow> control" where
  "inputParam name v = \<lparr>tagName = TextInput, dataParam = name, dataOutput = [], cvalue = v, cchecked = False\<rparr>"

definition checkboxParam :: "string \<Rightarrow> bool \<Rightarrow> control" where
  "checkboxParam name b = \<lparr>tagName = Checkbox, dataParam = name, dataOutput = [], cvalue = ''on'', cchecked = b\<rparr>"

definition selectParam :: "string \<Rightarrow> string \<Rightarrow> control" where
  "selectParam name v = \<lparr>tagName = Select, dataParam = name, dataOutput = [], cvalue = v, cchecked = False\<rparr>"

definition defaultLogic :: string where
  "defaultLogic =
     ''// Modify the '' @ [CHR 0x27] @ ''row'' @ [CHR 0x27] @ '' object and return it.'' @ [CHR 0x0A]
     @ ''// Example: return { ...row, new_prop: '' @ [CHR 0x27] @ ''value'' @ [CHR 0x27] @ '' };'' @ [CHR 0x0A]
     @ ''return row;''"

text \<open>The content templates, by node type: the controls and the initial status text
  (\<open>None\<close>: the template has no \<^verbatim>\<open>.node-status\<close> element). Every template has a
  \<^verbatim>\<open>.node-header\<close>. \<open>nodeCreators\<close> below holds the own entries of the table; what a lookup
  finds for the name of an inherited member is dealt with in \<open>createNode\<close>.\<close>

definition createTextNodeContent :: "(string \<times> cval) list \<Rightarrow> control list \<times> string option" where
  "createTextNodeContent given = ([textareaOut ''text_out'' (optText given ''text'')], None)"

definition createFindReplaceNodeContent :: "(string \<times> cval) list \<Rightarrow> control list \<times> string option" where
  "createFindReplaceNodeContent given =
     ([inputParam ''find'' (optText given ''find''),
       inputParam ''replace'' (optText given ''replace''),
       checkboxParam ''regex'' (optTruthy given ''regex''),
       checkboxParam ''global'' (optNotFalse given ''global''),
       checkboxParam ''case_sensitive'' (optTruthy given ''case_sensitive'')], Some [])"

definition createImportNodeContent :: "(string \<times> cval) list \<Rightarrow> control list \<times> string option" where
  "createImportNodeContent given =
     ([textareaOut ''data_out''
         (if optTruthy given ''data_out'' then optText given ''data_out'' else optText given ''text'')], None)"

definition createExportNodeContent :: "(string \<times> cval) list \<Rightarrow> control list \<times> string option" where
  "createExportNodeContent given =
     ([\<lparr>tagName = Textarea, dataParam = [], dataOutput = [], cvalue = [], cchecked = False\<rparr>], None)"

definition createCsvNodeContent :: "(string \<times> cval) list \<Rightarrow> control list \<times> string option" where
  "createCsvNodeContent given = ([], None)"

definition createJsonNodeContent :: "(string \<times> cval) list \<Rightarrow> control list \<times> string option" where
  "createJsonNodeContent given =
     ([selectParam ''operation'' (selectValue [''parse'', ''stringify''] given ''operation'')], Some [])"

definition createXmlNodeContent :: "(string \<times> cval) list \<Rightarrow> control list \<times> string option" where
  "createXmlNodeContent given = ([], Some ''Note: XML parsing not yet implemented.'')"

definition createSplitNodeContent :: "(string \<times> cval) list \<Rightarrow> control list \<times> string option" where
  "createSplitNodeContent given = ([], Some ''Note: Split logic not yet implemented.'')"

definition createFilterNodeContent :: "(string \<times> cval) list \<Rightarrow> control list \<times> string option" where
  "createFilterNodeContent given = ([textareaParam ''condition'' (optText given ''condition'')], Some [])"

definition createTransformNodeContent :: "(string \<times> cval) list \<Rightarrow> control list \<times> string option" where
  "createTransformNodeContent given =
     ([textareaParam ''logic'' (if optTruthy given ''logic'' then optText given ''logic'' else defaultLogic)],
      Some [])"

definition createMergeNodeContent :: "(string \<times> cval) list \<Rightarrow> control list \<times> string option" where
  "createMergeNodeContent given = ([inputParam ''key'' (optText given ''key'')], Some [])"

definition createAggregateNodeContent :: "(string \<times> cval) list \<Rightarrow> control list \<times> string option" where
  "createAggregateNodeContent given =
     ([inputParam ''groupBy'' (optText given ''groupBy''),
       selectParam ''aggFunc'' (selectValue [''sum'', ''count'', ''avg''] given ''aggFunc''),
       inputParam ''aggKey'' (optText given ''aggKey'')], Some [])"

definition createContainerNodeContent :: "(string \<times> cval) list \<Rightarrow> control list \<times> string option" where
  "createContainerNodeContent given = ([], None)"

definition createColumnNodeContent :: "(string \<times> cval) list \<Rightarrow> control list \<times> string option" where
  "createColumnNodeContent given = ([], None)"

definition createPlaceholderNodeContent :: "(string \<times> cval) list \<Rightarrow> control list \<times> string option" where
  "createPlaceholderNodeContent given = ([], None)"

definition placeholderTypes :: "string list" where
  "placeholderTypes =
     [''grid'', ''flex'', ''tabs'', ''accordion'', ''card'', ''sidebar'', ''header_footer'', ''spacer'']"

definition layoutNodeTypes :: "string list" where
  "layoutNodeTypes =
     [''container'', ''column'', ''grid'', ''flex'', ''tabs'', ''accordion'', ''card'', ''sidebar'',
      ''header_footer'']"

definition externalCreatorTypes :: "string list" where
  "externalCreatorTypes =
     [''spell_check'', ''translation'', ''summarization'', ''sentiment_analysis'', ''auto_format'',
      ''template'', ''macro'', ''ocr'', ''tts'', ''email'', ''pdf'', ''html_render'', ''qr_code'',
      ''social_share'', ''screenshot'', ''print'']"

definition nodeCreators :: "host \<Rightarrow> string \<Rightarrow> ((string \<times> cval) list \<Rightarrow> control list \<times> string option) option" where
  "nodeCreators h t =
     (if t = ''text'' then Some createTextNodeContent
      else if t = ''find_replace'' then Some createFindReplaceNodeContent
      else if t = ''import'' then Some createImportNodeContent
      else if t = ''export'' then Some createExportNodeContent
      else if t = ''csv'' then Some createCsvNodeContent
      else if t = ''json'' then Some createJsonNodeContent
      else if t = ''xml'' then Some createXmlNodeContent
      else if t = ''filter'' then Some createFilterNodeContent
      else if t = ''transform'' then Some createTransformNodeContent
      else if t = ''merge'' then Some createMergeNodeContent
      else if t = ''split'' then Some createSplitNodeContent
      else if t = ''aggregate'' then Some createAggregateNodeContent
      else if t = ''container'' then Some createContainerNodeContent
      else if t = ''column'' then Some createColumnNodeContent
      else if t \<in> set placeholderTypes then Some createPlaceholderNodeContent
      else if t \<in> set externalCreatorTypes then Some (externalCreator h t)
      else None)"

definition defaultTextProperties :: val where
  "defaultTextProperties =
     VObj
       [(''fontSize'', VNum (Fin 12)), (''color'', VStr ''#abb2bf''),
        (''h1'', VObj [(''color'', VStr ''#61afef''), (''fontSize'', VNum (Fin 32))]),
        (''h2'', VObj [(''color'', VStr ''#61afef''), (''fontSize'', VNum (Fin 24))]),
        (''h3'', VObj [(''color'', VStr ''#61afef''), (''fontSize'', VNum (Fin 20))]),
        (''h4'', VObj [(''color'', VStr ''#61afef''), (''fontSize'', VNum (Fin 16))]),
        (''h5'', VObj [(''color'', VStr ''#61afef''), (''fontSize'', VNum (Fin 14))]),
        (''h6'', VObj [(''color'', VStr ''#61afef''), (''fontSize'', VNum (Fin 12))]),
        (''strong'', VObj [(''color'', VStr ''#abb2bf'')]),
        (''em'', VObj [(''color'', VStr ''#abb2bf'')]),
        (''blockquote'', VObj [(''color'', VStr ''#5c6370''), (''borderColor'', VStr ''#61afef'')]),
        (''a'', VObj [(''color'', VStr ''#61afef'')]),
        (''code'', VObj [(''color'', VStr ''#abb2bf''), (''backgroundColor'', VStr ''#3a3a3a'')]),
        (''hr'', VObj [(''color'', VStr ''#5c6370'')]),
        (''ul'', VObj [(''color'', VStr ''#abb2bf'')]),
        (''ol'', VObj [(''color'', VStr ''#abb2bf'')]),
        (''li'', VObj [(''color'', VStr ''#abb2bf'')]),
        (''table'', VObj [(''borderColor'', VStr ''#5c6370'')]),
        (''th'', VObj [(''backgroundColor'', VStr ''#3a3a3a'')])]"

definition defaultCodeBlockProperties :: val where
  "defaultCodeBlockProperties = VObj [(''fontSize'', VNum (Fin 12)), (''syntaxTheme'', VStr ''dark'')]"

definition hexVal :: "char \<Rightarrow> nat option" where
  "hexVal c =
     (case indexOf c ''0123456789abcdef'' of
        Some d \<Rightarrow> Some d
      | None \<Rightarrow> map_option (\<lambda>i. i + 10) (indexOf c ''ABCDEF''))"

definition hexValue :: "string \<Rightarrow> nat" where
  "hexValue ds = foldl (\<lambda>a c. 16 * a + (case hexVal c of None \<Rightarrow> 0 | Some d \<Rightarrow> d)) 0 ds"

text \<open>\<^verbatim>\<open>parseInt(s)\<close> with no radix: white space, a sign, then the leading hexadecimal digits
  after a \<^verbatim>\<open>0x\<close> prefix or else the leading decimal digits; \<open>None\<close> is \<open>NaN\<close>.\<close>

definition parseInt :: "string \<Rightarrow> int option" where
  "parseInt s =
     (case dropWhile isWhite s of
        [] \<Rightarrow> None
      | c # cs \<Rightarrow>
          (let body = (if c = CHR ''-'' \<or> c = CHR ''+'' then cs else c # cs);
               hex = (take 2 body = ''0x'' \<or> take 2 body = ''0X'');
               ds = (if hex then takeWhile (\<lambda>d. hexVal d \<noteq> None) (drop 2 body) else takeWhile isDigit body);
               n = (if hex then int (hexValue ds) else int (digitsValue ds))
           in if ds = [] then None
              else Some (if c = CHR ''-'' then - n else n)))"

definition showInt :: "int \<Rightarrow> string" where
  "showInt i = (if i < 0 then ''-'' @ showNat (nat (- i)) else showNat (nat i))"

text \<open>\<^verbatim>\<open>parseInt(nodeId.split('_')[1])\<close>\<close>

definition idNumber :: "string \<Rightarrow> int option" where
  "idNumber nodeId = (case splitOn CHR ''_'' nodeId of _ # part # _ \<Rightarrow> parseInt part | _ \<Rightarrow> None)"

text \<open>The table of templates is an object literal too. For a type that names an inherited
  member, \<^verbatim>\<open>nodeCreators[type].call(this, options)\<close> is a TypeError for \<^verbatim>\<open>__proto__\<close> (an object
  has no \<^verbatim>\<open>call\<close>) and for \<^verbatim>\<open>__defineGetter__\<close> and \<^verbatim>\<open>__defineSetter__\<close> (their second
  argument is missing); the other inherited functions return a value that is no markup.\<close>

definition uncallableCreators :: "string list" where
  "uncallableCreators = [''__proto__'', ''__defineGetter__'', ''__defineSetter__'']"

text \<open>\<^verbatim>\<open>createNode(type, x, y, options)\<close>. A type without a content template gets an element
  without markup; \<^verbatim>\<open>setupNodeEvents\<close> then finds no \<^verbatim>\<open>.node-header\<close> and throws, after the node
  has been stored. A type whose inherited template cannot be called throws before the node
  is stored.\<close>

definition createNode :: "host \<Rightarrow> string \<Rightarrow> int \<Rightarrow> int \<Rightarrow> options \<Rightarrow> ide \<Rightarrow> ide outcome" where
  "createNode h t x y opts s =
     (let fresh = (case optId opts of None \<Rightarrow> True | Some i \<Rightarrow> i = []);
          nodeId = (if fresh then ''node_'' @ showInt (nodeCounter s) else (case optId opts of Some i \<Rightarrow> i | None \<Rightarrow> []));
          counter1 = (if fresh then nodeCounter s + 1 else nodeCounter s);
          counter2 = (case idNumber nodeId of
                        Some n \<Rightarrow> if n \<ge> counter1 then n + 1 else counter1
                      | None \<Rightarrow> counter1);
          tmpl = (case nodeCreators h t of None \<Rightarrow> ([], None) | Some creator \<Rightarrow> creator (optFields opts));
          nodeData =
            \<lparr>elementId = nodeId,
             styleLeft = x,
             styleTop = y,
             styleWidth = optWidth opts,
             styleHeight = optHeight opts,
             controls = fst tmpl,
             status = snd tmpl,
             ntype = t,
             outputs = [],
             properties =
               (if t = ''text'' then (if truthy (optProperties opts) then optProperties opts else defaultTextProperties)
                else VObj []),
             codeBlockProperties =
               (if t = ''text'' then
                  (if truthy (optCodeBlockProperties opts) then optCodeBlockProperties opts
                   else defaultCodeBlockProperties)
                else VObj []),
             isContainer = (t \<in> set layoutNodeTypes),
             children = optChildren opts,
             parentId = (case optParentId opts of None \<Rightarrow> None | Some p \<Rightarrow> if p = [] then None else Some p)\<rparr>;
          s1 = nodesSet nodeId nodeData (s\<lparr>nodeCounter := counter2\<rparr>)
      in if t \<in> set uncallableCreators then Throws ''nodeCreators[type].call is not a function'' (s\<lparr>nodeCounter := counter2\<rparr>)
         else if nodeCreators h t = None then Throws (typeErrorRead ''null'') s1
         else if fromSerialization opts then Returns s1
         else Returns (recordState s1))"

section \<open>Loading a snapshot\<close>

definition optionsOf :: "nodeState \<Rightarrow> options" where
  "optionsOf nodeState =
     \<lparr>optFields = content nodeState,
      optId = Some (sid nodeState),
      optWidth = swidth nodeState,
      optHeight = sheight nodeState,
      optProperties = sproperties nodeState,
      optCodeBlockProperties = scodeBlockProperties nodeState,
      optParentId = sparentId nodeState,
      optChildren = schildren nodeState,
      fromSerialization = True\<rparr>"

fun createAll :: "host \<Rightarrow> nodeState list \<Rightarrow> ide \<Rightarrow> ide outcome" where
  "createAll h [] s = Returns s"
| "createAll h (nodeState # rest) s =
     (case createNode h (stype nodeState) (sx nodeState) (sy nodeState) (optionsOf nodeState) s of
        Throws e s' \<Rightarrow> Throws e s'
      | Returns s' \<Rightarrow> createAll h rest s')"

definition loadErrorMessage :: string where
  "loadErrorMessage = ''Error: Could not load the session file. It might be corrupted.''"

text \<open>The \<^verbatim>\<open>try\<close> block of \<^verbatim>\<open>deserialize\<close>. The visual updates it defers with
  \<^verbatim>\<open>setTimeout\<close> run after it has returned and are not part of it. The second argument is
  the room the call stack has for \<^verbatim>\<open>processNodeData\<close>; \<open>None\<close> says that a processor did not
  return.\<close>

definition deserializeBody :: "host \<Rightarrow> nat \<Rightarrow> jsonText \<Rightarrow> ide \<Rightarrow> ide outcome option" where
  "deserializeBody h depth jsonString s =
     (case jsonString of
        NotJson \<Rightarrow> Some (Throws ''Unexpected token'' s)
      | JsonNull \<Rightarrow> Some (Throws (typeErrorRead ''null'') (s\<lparr>nodes := [], connections := []\<rparr>))
      | JsonDoc state \<Rightarrow>
          (let s1 = s\<lparr>nodes := [], connections := [],
                      canvasOffset := (case scanvasOffset state of None \<Rightarrow> (0, 0) | Some p \<Rightarrow> p),
                      scale := (case sscale state of None \<Rightarrow> 1 | Some r \<Rightarrow> if r = 0 then 1 else r),
                      nodeCounter := (case snodeCounter state of None \<Rightarrow> 0 | Some n \<Rightarrow> n)\<rparr>
           in case snodes state of
                None \<Rightarrow> Some (Throws (typeErrorRead ''undefined'') s1)
              | Some nodeStates \<Rightarrow>
                  (case createAll h nodeStates s1 of
                     Throws e s2 \<Rightarrow> Some (Throws e s2)
                   | Returns s2 \<Rightarrow>
                       (let s3 = s2\<lparr>connections := (case sconnections state of None \<Rightarrow> [] | Some cs \<Rightarrow> cs)\<rparr>
                        in forEachM (\<lambda>nodeId. processNodeData h depth nodeId) (map fst (nodes s3)) s3))))"

definition setRestoring :: "bool \<Rightarrow> ide \<Rightarrow> ide" where
  "setRestoring b s = s\<lparr>hist := (hist s)\<lparr>isRestoring := b\<rparr>\<rparr>"

definition deserialize :: "host \<Rightarrow> nat \<Rightarrow> jsonText \<Rightarrow> ide \<Rightarrow> ide option" where
  "deserialize h depth jsonString s =
     (case deserializeBody h depth jsonString (setRestoring True s) of
        None \<Rightarrow> None
      | Some (Returns s') \<Rightarrow> Some (setRestoring False s')
      | Some (Throws e s') \<Rightarrow> Some (setRestoring False (s'\<lparr>alerts := alerts s' @ [loadErrorMessage]\<rparr>)))"

section \<open>Undo and redo\<close>

definition undo :: "host \<Rightarrow> nat \<Rightarrow> ide \<Rightarrow> ide option" where
  "undo h depth s =
     (if length (undoStack (hist s)) \<le> 1 then Some s
      else
        (let currentState = last (undoStack (hist s));
             s1 = s\<lparr>hist := (hist s)\<lparr>undoStack := butlast (undoStack (hist s)),
                                      redoStack := redoStack (hist s) @ [currentState]\<rparr>\<rparr>;
             prevState = last (undoStack (hist s1))
         in deserialize h depth prevState s1))"

definition redo :: "host \<Rightarrow> nat \<Rightarrow> ide \<Rightarrow> ide option" where
  "redo h depth s =
     (if redoStack (hist s) = [] then Some s
      else
        (let nextState = last (redoStack (hist s));
             s1 = s\<lparr>hist := (hist s)\<lparr>redoStack := butlast (redoStack (hist s)),
                                      undoStack := undoStack (hist s) @ [nextState]\<rparr>\<rparr>
         in deserialize h depth nextState s1))"

section \<open>Connecting sockets\<close>

record socketEl =
  ownerId :: string
  socketName :: string
  isInput :: bool

definition targets :: "string \<Rightarrow> string \<Rightarrow> conn \<Rightarrow> bool" where
  "targets nodeId name c = (node (cto c) = nodeId \<and> socket (cto c) = name)"

definition completeConnection :: "host \<Rightarrow> nat \<Rightarrow> socketEl \<Rightarrow> ide \<Rightarrow> ide outcome option" where
  "completeConnection h depth targetSocket s =
     (case connectionStart s of
        None \<Rightarrow> Some (Returns s)
      | Some start \<Rightarrow>
          (if \<not> isInput targetSocket then Some (Returns s)
           else if node start = ownerId targetSocket then Some (Returns s)
           else
             (let s1 = s\<lparr>connections :=
                          filter (\<lambda>c. \<not> targets (ownerId targetSocket) (socketName targetSocket) c) (connections s)
                          @ [\<lparr>cfrom = \<lparr>node = node start, socket = socket start\<rparr>,
                              cto = \<lparr>node = ownerId targetSocket, socket = socketName targetSocket\<rparr>\<rparr>]\<rparr>;
                  s2 = recordState s1
              in case processNodeData h depth (ownerId targetSocket) s2 of
                   None \<Rightarrow> None
                 | Some (Throws e s3) \<Rightarrow> Some (Throws e s3)
                 | Some (Returns s3) \<Rightarrow> Some (Returns (s3\<lparr>connectionStart := None\<rparr>)))))"

section \<open>Runs and scenarios\<close>

text \<open>A run of edits as the history sees it: the graph moves from one state of the list to
  the next, and \<^verbatim>\<open>recordState\<close> is called on each with the history built so far.\<close>

fun recordEach :: "ide list \<Rightarrow> history \<Rightarrow> history" where
  "recordEach [] hs = hs"
| "recordEach (g # gs) hs = recordEach gs (hist (recordState (g\<lparr>hist := hs\<rparr>)))"

definition freshHistory :: history where
  "freshHistory = \<lparr>undoStack = [], redoStack = [], isRestoring = False\<rparr>"

text \<open>The editor as its constructor leaves it, before the first \<^verbatim>\<open>recordState\<close>.\<close>

definition emptyIde :: ide where
  "emptyIde =
     \<lparr>nodes = [], connections = [], connectionStart = None, nodeCounter = 0,
      canvasOffset = (0, 0), scale = 1, hist = freshHistory, alerts = [], processedLog = []\<rparr>"

definition numberedStates :: "ide list" where
  "numberedStates = map (\<lambda>i. emptyIde\<lparr>nodeCounter := int i\<rparr>) [0..<52]"

text \<open>A host for the concrete runs below: it rejects every expression text as a syntax
  error (the only text those runs compile is not an expression), no two join keys are one
  object (those runs compare none), and its external node types do nothing (those runs
  process none).\<close>

definition inertHost :: host where
  "inertHost =
     \<lparr>newFunction = (\<lambda>body. Inl ''Unexpected token''),
      formatValue = (\<lambda>v. []),
      sameObject = (\<lambda>s nodeId i j. False),
      externalProcessor = (\<lambda>t s nd. Some (Returns nd)),
      externalCreator = (\<lambda>t given. ([], None))\<rparr>"

text \<open>The user code of a host returns or throws on every argument, and its external
  processors return or throw.\<close>

definition hostTerminates :: "host \<Rightarrow> bool" where
  "hostTerminates h =
     ((\<forall>body f args. newFunction h body = Inr f \<longrightarrow> f args \<noteq> Diverges) \<and>
      (\<forall>t s nodeData. externalProcessor h t s nodeData \<noteq> None))"

definition plainOptions :: "(string \<times> cval) list \<Rightarrow> options" where
  "plainOptions given =
     \<lparr>optFields = given, optId = None, optWidth = [], optHeight = [], optProperties = VUndefined,
      optCodeBlockProperties = VUndefined, optParentId = None, optChildren = [], fromSerialization = False\<rparr>"

definition wire :: "string \<Rightarrow> string \<Rightarrow> string \<Rightarrow> string \<Rightarrow> conn" where
  "wire a x b y = \<lparr>cfrom = \<lparr>node = a, socket = x\<rparr>, cto = \<lparr>node = b, socket = y\<rparr>\<rparr>"

text \<open>Two text nodes wired together, and an import node from whose output a wire is being
  dragged onto the occupied input.\<close>

definition connectState :: ide where
  "connectState =
     (let s1 = stateOf (createNode inertHost ''text'' 50 50 (plainOptions [(''text'', CStr ''a'')]) emptyIde);
          s2 = stateOf (createNode inertHost ''text'' 350 50 (plainOptions []) s1);
          s3 = stateOf (createNode inertHost ''import'' 50 300 (plainOptions [(''data_out'', CStr ''b'')]) s2)
      in s3\<lparr>connections := [wire ''node_0'' ''text_out'' ''node_1'' ''text_in''],
             connectionStart := Some \<lparr>node = ''node_2'', socket = ''data_out''\<rparr>\<rparr>)"

definition connectTarget :: socketEl where
  "connectTarget = \<lparr>ownerId = ''node_1'', socketName = ''text_in'', isInput = True\<rparr>"

text \<open>The same two text nodes, with a wire being dragged from the output of the second back
  onto the input of the first: completing it closes a cycle.\<close>

definition cycleState :: ide where
  "cycleState = connectState\<lparr>connectionStart := Some \<lparr>node = ''node_1'', socket = ''text_out''\<rparr>\<rparr>"

definition cycleTarget :: socketEl where
  "cycleTarget = \<lparr>ownerId = ''node_0'', socketName = ''text_in'', isInput = True\<rparr>"

text \<open>The callback of the \<^verbatim>\<open>forEach\<close> in \<^verbatim>\<open>processNodeData\<close>: a connection that leaves the
  node passes the call on to its target.\<close>

definition cascade :: "host \<Rightarrow> nat \<Rightarrow> string \<Rightarrow> conn \<Rightarrow> ide \<Rightarrow> ide outcome option" where
  "cascade h depth nodeId c s =
     (if node (cfrom c) = nodeId then processNodeData h depth (node (cto c)) s else Some (Returns s))"

text \<open>The part of the log a run has added.\<close>

definition newlyProcessed :: "ide \<Rightarrow> ide \<Rightarrow> string list" where
  "newlyProcessed s s' = drop (length (processedLog s)) (processedLog s')"

text \<open>What propagation leaves alone: everything but the nodes' data and the log.\<close>

definition sameFrame :: "ide \<Rightarrow> ide \<Rightarrow> bool" where
  "sameFrame s s' =
     (connections s' = connections s \<and> map fst (nodes s') = map fst (nodes s) \<and> hist s' = hist s \<and>
      alerts s' = alerts s \<and> connectionStart s' = connectionStart s \<and> nodeCounter s' = nodeCounter s \<and>
      canvasOffset s' = canvasOffset s \<and> scale s' = scale s)"

text \<open>\<open>grows s s'\<close>: \<open>s'\<close> has the frame of \<open>s\<close>, and its log continues the log of \<open>s\<close>.\<close>

definition grows :: "ide \<Rightarrow> ide \<Rightarrow> bool" where
  "grows s s' = (sameFrame s s' \<and> take (length (processedLog s)) (processedLog s') = processedLog s)"

definition nodeStateOf :: "string \<Rightarrow> string \<Rightarrow> (string \<times> cval) list \<Rightarrow> nodeState" where
  "nodeStateOf i t given =
     \<lparr>sid = i, stype = t, sx = 0, sy = 0, swidth = ''280px'', sheight = ''150px'', content = given,
      sproperties = VObj [], scodeBlockProperties = VObj [], sparentId = None, schildren = []\<rparr>"

text \<open>A container and an import node as \<^verbatim>\<open>deserialize\<close> has created them, with the
  connection list of the session in place and no node processed yet.\<close>

definition loadedState :: ide where
  "loadedState =
     (stateOf (createAll inertHost
        [nodeStateOf ''node_0'' ''container'' [], nodeStateOf ''node_1'' ''import'' [(''data_out'', CStr ''hi'')]]
        emptyIde))
     \<lparr>connections := [wire ''node_0'' ''out'' ''node_1'' ''in'']\<rparr>"

definition emptyDoc :: session where
  "emptyDoc = \<lparr>snodes = None, sconnections = None, scanvasOffset = None, sscale = None, snodeCounter = None\<rparr>"



text \<open>A session of two text nodes, each wired to the other.\<close>

definition cyclicDoc :: session where
  "cyclicDoc =
     emptyDoc\<lparr>snodes := Some [nodeStateOf ''node_0'' ''text'' [], nodeStateOf ''node_1'' ''text'' []],
              sconnections := Some [wire ''node_0'' ''text_out'' ''node_1'' ''text_in'',
                                    wire ''node_1'' ''text_out'' ''node_0'' ''text_in'']\<rparr>"

text \<open>The rows of Scenario B and the result the specification gives for them.\<close>

definition scenarioRows :: "val list" where
  "scenarioRows =
     [VObj [(''cat'', VStr ''x''), (''v'', VStr ''1'')],
      VObj [(''cat'', VStr ''x''), (''v'', VStr ''2'')],
      VObj [(''cat'', VStr ''y''), (''v'', VStr ''5'')]]"

definition scenarioResult :: "val list" where
  "scenarioResult =
     [VObj [(''cat'', VStr ''x''), (''sum_of_v'', VNum (Fin 3))],
      VObj [(''cat'', VStr ''y''), (''sum_of_v'', VNum (Fin 5))]]"

text \<open>A table source (its output already computed) feeding an aggregate node, a filter
  node whose condition is not an expression, and both inputs of a merge node.\<close>

definition tableState :: ide where
  "tableState =
     (let s1 = stateOf (createNode inertHost ''csv'' 0 0 (plainOptions []) emptyIde);
          s2 = stateOf (createNode inertHost ''aggregate'' 300 0
                 (plainOptions [(''groupBy'', CStr ''cat''), (''aggFunc'', CStr ''sum''), (''aggKey'', CStr ''v'')]) s1);
          s3 = stateOf (createNode inertHost ''filter'' 300 200 (plainOptions [(''condition'', CStr ''row.v >'')]) s2);
          s4 = stateOf (createNode inertHost ''merge'' 300 400 (plainOptions [(''key'', CStr ''cat'')]) s3);
          s5 = (case nodesGet s4 ''node_0'' of
                  None \<Rightarrow> s4
                | Some nd \<Rightarrow> nodesSet ''node_0'' (setOutput ''data_out'' (VArr scenarioRows) nd) s4)
      in s5\<lparr>connections :=
               [wire ''node_0'' ''data_out'' ''node_1'' ''data_in'',
                wire ''node_0'' ''data_out'' ''node_2'' ''data_in'',
                wire ''node_0'' ''data_out'' ''node_3'' ''data_in_1'',
                wire ''node_0'' ''data_out'' ''node_3'' ''data_in_2'']\<rparr>)"

text \<open>The graph of the editor: the existing nodes, and an edge for every connection whose
  two ends exist.\<close>

definition nodeIds :: "ide \<Rightarrow> string set" where
  "nodeIds s = set (map fst (nodes s))"

definition edgeList :: "ide \<Rightarrow> (string \<times> string) list" where
  "edgeList s =
     map (\<lambda>c. (node (cfrom c), node (cto c)))
       (filter (\<lambda>c. node (cfrom c) \<in> nodeIds s \<and> node (cto c) \<in> nodeIds s) (connections s))"

definition edges :: "ide \<Rightarrow> (string \<times> string) set" where
  "edges s = set (edgeList s)"

text \<open>A JSON node that has parsed the text \<^verbatim>\<open>[null]\<close>, feeding an aggregate node, which feeds a
  text node.\<close>

definition throwState :: ide where
  "throwState =
     (let s1 = stateOf (createNode inertHost ''json'' 0 0 (plainOptions [(''operation'', CStr ''parse'')]) emptyIde);
          s2 = stateOf (createNode inertHost ''aggregate'' 300 0
                 (plainOptions [(''groupBy'', CStr ''cat''), (''aggFunc'', CStr ''sum''), (''aggKey'', CStr ''v'')]) s1);
          s3 = stateOf (createNode inertHost ''text'' 600 0 (plainOptions []) s2);
          s4 = (case nodesGet s3 ''node_0'' of
                  None \<Rightarrow> s3
                | Some nd \<Rightarrow> nodesSet ''node_0'' (setOutput ''data_out'' (VArr [VNull]) nd) s3)
      in s4\<lparr>connections :=
               [wire ''node_0'' ''data_out'' ''node_1'' ''data_in'',
                wire ''node_1'' ''data_out'' ''node_2'' ''text_in'']\<rparr>)"

text \<open>The table source feeding a filter node whose condition is an expression that throws
  \<^verbatim>\<open>null\<close>, and a host that compiles that expression.\<close>

definition throwNullCondition :: string where
  "throwNullCondition = ''(() => { throw null })()''"

definition throwNullHost :: host where
  "throwNullHost =
     inertHost\<lparr>newFunction :=
       (\<lambda>body. if body = ''return '' @ throwNullCondition then Inr (\<lambda>args. Raised VNull)
               else Inl ''Unexpected token'')\<rparr>"

definition filterThrowState :: ide where
  "filterThrowState =
     (let s1 = stateOf (createNode inertHost ''csv'' 0 0 (plainOptions []) emptyIde);
          s2 = stateOf (createNode inertHost ''filter'' 300 0
                 (plainOptions [(''condition'', CStr throwNullCondition)]) s1);
          s3 = (case nodesGet s2 ''node_0'' of
                  None \<Rightarrow> s2
                | Some nd \<Rightarrow> nodesSet ''node_0'' (setOutput ''data_out'' (VArr scenarioRows) nd) s2)
      in s3\<lparr>connections := [wire ''node_0'' ''data_out'' ''node_1'' ''data_in'']\<rparr>)"

text \<open>The table source and a JSON node that has parsed the text \<^verbatim>\<open>[null]\<close>, feeding the left
  and the right input of a merge node with join key \<^verbatim>\<open>cat\<close>.\<close>

definition mergeNullState :: ide where
  "mergeNullState =
     (let s1 = stateOf (createNode inertHost ''csv'' 0 0 (plainOptions []) emptyIde);
          s2 = stateOf (createNode inertHost ''json'' 0 200 (plainOptions [(''operation'', CStr ''parse'')]) s1);
          s3 = stateOf (createNode inertHost ''merge'' 300 0 (plainOptions [(''key'', CStr ''cat'')]) s2);
          s4 = (case nodesGet s3 ''node_0'' of
                  None \<Rightarrow> s3
                | Some nd \<Rightarrow> nodesSet ''node_0'' (setOutput ''data_out'' (VArr scenarioRows) nd) s3);
          s5 = (case nodesGet s4 ''node_1'' of
                  None \<Rightarrow> s4
                | Some nd \<Rightarrow> nodesSet ''node_1'' (setOutput ''data_out'' (VArr [VNull]) nd) s4)
      in s5\<lparr>connections :=
               [wire ''node_0'' ''data_out'' ''node_2'' ''data_in_1'',
                wire ''node_1'' ''data_out'' ''node_2'' ''data_in_2'']\<rparr>)"

text \<open>The \<^verbatim>\<open>input\<close> listener of a node's controls, for the node's first textarea: the user
  has replaced its text; the listener runs \<^verbatim>\<open>processNodeData\<close> and, when the debounce timer
  fires, \<^verbatim>\<open>recordState\<close>.\<close>

definition inputEvent :: "host \<Rightarrow> nat \<Rightarrow> string \<Rightarrow> string \<Rightarrow> ide \<Rightarrow> ide outcome option" where
  "inputEvent h depth nodeId v s =
     (case nodesGet s nodeId of
        None \<Rightarrow> Some (Returns s)
      | Some nd \<Rightarrow>
          (case setTextarea v nd of
             Throws e _ \<Rightarrow> Some (Returns s)
           | Returns nd' \<Rightarrow>
               (case processNodeData h depth nodeId (nodesSet nodeId nd' s) of
                  None \<Rightarrow> None
                | Some (Throws e s') \<Rightarrow> Some (Throws e s')
                | Some (Returns s') \<Rightarrow> Some (Returns (recordState s')))))"

text \<open>A session of three recorded edits: the editor starts (\<^verbatim>\<open>Initial State\<close>), the user
  creates a node of the given type and types \<^verbatim>\<open>hello\<close> into it.\<close>

definition typedState :: "string \<Rightarrow> ide" where
  "typedState t =
     (let s0 = recordState emptyIde;
          s1 = stateOf (createNode inertHost t 50 50 (plainOptions []) s0)
      in case inputEvent inertHost 1 ''node_0'' ''hello'' s1 of
           None \<Rightarrow> s1
         | Some r \<Rightarrow> stateOf r)"

text \<open>What a round trip is to reproduce, node by node: id, type, position, and the values
  of the controls.\<close>

definition shape :: "ide \<Rightarrow> (string \<times> string \<times> (int \<times> int) \<times> string list) list" where
  "shape s = map (\<lambda>(nodeId, nd). (nodeId, ntype nd, (styleLeft nd, styleTop nd), map cvalue (controls nd))) (nodes s)"

text \<open>\<^verbatim>\<open>undo\<close> twice, then \<^verbatim>\<open>redo\<close> twice.\<close>

definition undoTwiceRedoTwice :: "host \<Rightarrow> nat \<Rightarrow> ide \<Rightarrow> ide option" where
  "undoTwiceRedoTwice h depth s =
     Option.bind (Option.bind (Option.bind (undo h depth s) (undo h depth)) (redo h depth)) (redo h depth)"

section \<open>The history is bounded\<close>

lemma serialize_hist [simp]: "serialize (g\<lparr>hist := hs\<rparr>) = serialize g"
  by (simp add: serialize_def)

lemma recordEach_append: "recordEach (gs @ [g]) hs = hist (recordState (g\<lparr>hist := recordEach gs hs\<rparr>))"
  by (induction gs arbitrary: hs) simp_all

lemma recordState_isRestoring [simp]: "isRestoring (hist (recordState s)) = isRestoring (hist s)"
  by (simp add: recordState_def Let_def)

lemma recordEach_isRestoring [simp]: "isRestoring (recordEach gs hs) = isRestoring hs"
  by (induction gs arbitrary: hs) simp_all

lemma recordState_length:
  "length (undoStack (hist s)) \<le> maxHistory \<Longrightarrow> length (undoStack (hist (recordState s))) \<le> maxHistory"
  by (auto simp: recordState_def Let_def)

lemma recordEach_length:
  "length (undoStack hs) \<le> maxHistory \<Longrightarrow> length (undoStack (recordEach gs hs)) \<le> maxHistory"
proof (induction gs arbitrary: hs)
  case Nil
  then show ?case by simp
next
  case (Cons g gs)
  have "length (undoStack (hist (recordState (g\<lparr>hist := hs\<rparr>)))) \<le> maxHistory"
    using Cons.prems by (intro recordState_length) simp
  then show ?case using Cons.IH by simp
qed

lemma recordEach_stack:
  assumes "distinct (map serialize gs)" and "undoStack hs = []" and "\<not> isRestoring hs"
  shows "undoStack (recordEach gs hs) = drop (length gs - maxHistory) (map serialize gs)"
  using assms(1)
proof (induction gs rule: rev_induct)
  case Nil
  then show ?case using assms(2) by simp
next
  case (snoc g gs)
  let ?U = "undoStack (recordEach gs hs)"
  have U: "?U = drop (length gs - maxHistory) (map serialize gs)"
    using snoc by simp
  have fresh: "?U = [] \<or> last ?U \<noteq> serialize g"
  proof (cases "?U = []")
    case True
    then show ?thesis by simp
  next
    case False
    then have "last ?U \<in> set (map serialize gs)"
      using U by (metis in_set_dropD last_in_set)
    moreover have "serialize g \<notin> set (map serialize gs)"
      using snoc.prems by simp
    ultimately show ?thesis by metis
  qed
  have len: "length ?U = min (length gs) maxHistory"
    using U by (simp add: min_def)
  have step: "undoStack (recordEach (gs @ [g]) hs)
      = (if length (?U @ [serialize g]) > maxHistory then tl (?U @ [serialize g]) else ?U @ [serialize g])"
    using fresh assms(3) by (auto simp: recordEach_append recordState_def Let_def)
  show ?case
  proof (cases "length gs < maxHistory")
    case True
    then show ?thesis using step len U by simp
  next
    case False
    then have ge: "maxHistory \<le> length gs" by simp
    then have "length (?U @ [serialize g]) > maxHistory" using len by simp
    then have "undoStack (recordEach (gs @ [g]) hs) = tl (?U @ [serialize g])"
      using step by simp
    also have "\<dots> = tl ?U @ [serialize g]"
      using len ge by (cases ?U) (simp_all add: maxHistory_def)
    also have "\<dots> = drop (Suc (length gs - maxHistory)) (map serialize gs) @ [serialize g]"
      using U by (simp add: tl_drop drop_Suc)
    also have "\<dots> = drop (Suc (length gs - maxHistory)) (map serialize (gs @ [g]))"
      using ge by (simp add: maxHistory_def)
    also have "\<dots> = drop (length (gs @ [g]) - maxHistory) (map serialize (gs @ [g]))"
      using ge by (simp add: Suc_diff_le)
    finally show ?thesis .
  qed
qed

text \<open>
  Claim C5. However many times \<^verbatim>\<open>recordState\<close> is called, the undo stack never holds more
  than \<open>maxHistory\<close> = 50 snapshots. Called on pairwise distinct graph states from an empty
  history, it holds exactly the last 50 of them in order: once the stack is full each
  call evicts the oldest entry.
\<close>

theorem recordState_bounds_history:
  "(length (undoStack hs) \<le> maxHistory \<longrightarrow> length (undoStack (recordEach gs hs)) \<le> maxHistory) \<and>
   (distinct (map serialize gs) \<and> undoStack hs = [] \<and> \<not> isRestoring hs \<longrightarrow>
      undoStack (recordEach gs hs) = drop (length gs - maxHistory) (map serialize gs))"
  using recordEach_length recordEach_stack by blast

lemma numberedStates_distinct: "distinct (map serialize numberedStates)"
  by code_simp

theorem recordState_bounds_history_witness:
  "length numberedStates = maxHistory + 2 \<and>
   length (undoStack (recordEach numberedStates freshHistory)) \<le> maxHistory \<and>
   undoStack (recordEach numberedStates freshHistory) = drop 2 (map serialize numberedStates)"
  using recordState_bounds_history [of freshHistory numberedStates] numberedStates_distinct
  by (simp add: freshHistory_def numberedStates_def maxHistory_def)


section \<open>Propagation changes node data only\<close>

lemma sameFrame_refl [simp]: "sameFrame s s"
  by (simp add: sameFrame_def)

lemma sameFrame_trans: "sameFrame a b \<Longrightarrow> sameFrame b c \<Longrightarrow> sameFrame a c"
  by (simp add: sameFrame_def)

lemma nodesGet_key: "nodesGet s n = Some nd \<Longrightarrow> n \<in> set (map fst (nodes s))"
  by (auto simp: nodesGet_def dest: map_of_SomeD intro: rev_image_eqI)

lemma nodesGet_present: "n \<in> nodeIds s \<Longrightarrow> \<exists>nd. nodesGet s n = Some nd"
proof -
  assume "n \<in> nodeIds s"
  then have "n \<in> fst ` set (nodes s)" by (simp add: nodeIds_def)
  then have "map_of (nodes s) n \<noteq> None" by (simp add: map_of_eq_None_iff)
  then show ?thesis by (auto simp: nodesGet_def)
qed

lemma update_keys_present: "k \<in> set (map fst al) \<Longrightarrow> map fst (AList.update k v al) = map fst al"
  by (simp add: update_keys)

lemma sameFrame_nodesSet:
  "n \<in> set (map fst (nodes s)) \<Longrightarrow> sameFrame s (nodesSet n nd (s\<lparr>processedLog := l\<rparr>))"
  by (simp add: sameFrame_def nodesSet_def update_keys_present)

lemma grows_refl [simp]: "grows s s"
  by (simp add: grows_def)

lemma grows_log: "grows s s' \<Longrightarrow> processedLog s' = processedLog s @ newlyProcessed s s'"
  unfolding grows_def newlyProcessed_def
  by (metis append_take_drop_id)

lemma growsI: "sameFrame s s' \<Longrightarrow> processedLog s' = processedLog s @ new \<Longrightarrow> grows s s'"
  by (simp add: grows_def)

lemma grows_trans: "grows a b \<Longrightarrow> grows b c \<Longrightarrow> grows a c"
proof -
  assume ab: "grows a b" and bc: "grows b c"
  have "processedLog c = processedLog a @ (newlyProcessed a b @ newlyProcessed b c)"
    using grows_log [OF ab] grows_log [OF bc] by simp
  moreover have "sameFrame a c"
    using ab bc by (auto simp: grows_def intro: sameFrame_trans)
  ultimately show ?thesis by (rule growsI [rotated])
qed

lemma grows_frame: "grows s s' \<Longrightarrow> nodeIds s' = nodeIds s \<and> edges s' = edges s \<and> connections s' = connections s"
  by (simp add: grows_def sameFrame_def nodeIds_def edges_def edgeList_def)

lemma newlyProcessed_between:
  assumes "grows s a" and "grows a b" and "grows b s'"
  shows "set (newlyProcessed a b) \<subseteq> set (newlyProcessed s s')"
proof -
  have "processedLog s' = processedLog s @ (newlyProcessed s a @ newlyProcessed a b @ newlyProcessed b s')"
    using grows_log [OF assms(1)] grows_log [OF assms(2)] grows_log [OF assms(3)] by simp
  then have "newlyProcessed s s' = newlyProcessed s a @ newlyProcessed a b @ newlyProcessed b s'"
    by (simp add: newlyProcessed_def [of s s'])
  then show ?thesis by auto
qed

lemma forEachM_invariant:
  "forEachM f xs s = Some r \<Longrightarrow> P s \<Longrightarrow>
   (\<forall>x\<in>set xs. \<forall>s r. P s \<longrightarrow> f x s = Some r \<longrightarrow> P (stateOf r)) \<Longrightarrow> P (stateOf r)"
proof (induction xs arbitrary: s)
  case Nil
  then show ?case by auto
next
  case (Cons x xs)
  then obtain o1 where o1: "f x s = Some o1"
    by (cases "f x s") auto
  have P1: "P (stateOf o1)" using Cons.prems(2,3) o1 by auto
  show ?case
  proof (cases o1)
    case (Returns s1)
    then have "forEachM f xs s1 = Some r" using Cons.prems(1) o1 by simp
    moreover have "P s1" using P1 Returns by simp
    moreover have "\<forall>x\<in>set xs. \<forall>s r. P s \<longrightarrow> f x s = Some r \<longrightarrow> P (stateOf r)"
      using Cons.prems(3) by simp
    ultimately show ?thesis by (rule Cons.IH)
  next
    case (Throws e s1)
    then have "r = Throws e s1" using Cons.prems(1) o1 by simp
    then show ?thesis using P1 Throws by simp
  qed
qed

lemma forEachM_total:
  "(\<forall>x\<in>set xs. \<forall>a. f x a \<noteq> None) \<Longrightarrow> forEachM f xs s \<noteq> None"
proof (induction xs arbitrary: s)
  case Nil
  then show ?case by simp
next
  case (Cons x xs)
  have "f x s \<noteq> None" using Cons.prems by simp
  then obtain o1 where o1: "f x s = Some o1" by auto
  show ?case
  proof (cases o1)
    case (Returns s1)
    have "forEachM f xs s1 \<noteq> None" using Cons.prems by (intro Cons.IH) simp
    then show ?thesis using o1 Returns by simp
  next
    case (Throws e s1)
    then show ?thesis using o1 by simp
  qed
qed

lemma processNodeData_unfold:
  "processNodeData h (Suc k) n s =
     (case nodesGet s n of
        None \<Rightarrow> Some (Returns s)
      | Some nd \<Rightarrow>
          (case runProcessor h (s\<lparr>processedLog := processedLog s @ [n]\<rparr>) nd of
             None \<Rightarrow> None
           | Some (Throws e nd') \<Rightarrow> Some (Throws e (nodesSet n nd' (s\<lparr>processedLog := processedLog s @ [n]\<rparr>)))
           | Some (Returns nd') \<Rightarrow>
               forEachM (cascade h k n) (connections s) (nodesSet n nd' (s\<lparr>processedLog := processedLog s @ [n]\<rparr>))))"
proof -
  have "cascade h k n = (\<lambda>c s'. if node (cfrom c) = n then processNodeData h k (node (cto c)) s' else Some (Returns s'))"
    by (intro ext) (simp add: cascade_def)
  then show ?thesis by (simp add: Let_def split: option.split outcome.split)
qed

declare processNodeData.simps(2) [simp del]

lemma processNodeData_grows:
  "processNodeData h k n s = Some r \<Longrightarrow> grows s (stateOf r)"
proof (induction k arbitrary: n s r)
  case 0
  then show ?case by auto
next
  case (Suc k)
  show ?case
  proof (cases "nodesGet s n")
    case None
    then show ?thesis using Suc.prems by (auto simp: processNodeData_unfold)
  next
    case (Some nd)
    let ?s0 = "s\<lparr>processedLog := processedLog s @ [n]\<rparr>"
    have key: "n \<in> set (map fst (nodes s))" using Some by (rule nodesGet_key)
    have start: "grows s (nodesSet n nd' ?s0)" for nd'
    proof (rule growsI [where new = "[n]"])
      show "sameFrame s (nodesSet n nd' ?s0)" using key by (rule sameFrame_nodesSet)
      show "processedLog (nodesSet n nd' ?s0) = processedLog s @ [n]" by (simp add: nodesSet_def)
    qed
    obtain o1 where o1: "runProcessor h ?s0 nd = Some o1"
      using Suc.prems Some by (cases "runProcessor h ?s0 nd") (auto simp: processNodeData_unfold)
    show ?thesis
    proof (cases o1)
      case (Throws e nd')
      then have "r = Throws e (nodesSet n nd' ?s0)"
        using Suc.prems Some o1 by (simp add: processNodeData_unfold)
      then show ?thesis using start by simp
    next
      case (Returns nd')
      have run: "forEachM (cascade h k n) (connections s) (nodesSet n nd' ?s0) = Some r"
        using Suc.prems Some o1 Returns by (simp add: processNodeData_unfold)
      have step: "\<forall>c\<in>set (connections s). \<forall>s' r'. grows s s' \<longrightarrow> cascade h k n c s' = Some r' \<longrightarrow> grows s (stateOf r')"
        using Suc.IH by (auto simp: cascade_def split: if_splits intro: grows_trans)
      show ?thesis
        by (rule forEachM_invariant [where P = "grows s", OF run start step])
    qed
  qed
qed

lemma processNodeData_frame:
  "processNodeData h k n s = Some r \<Longrightarrow> sameFrame s (stateOf r)"
  using processNodeData_grows by (auto simp: grows_def)

lemma cascade_grows: "cascade h k n c s = Some r \<Longrightarrow> grows s (stateOf r)"
  using processNodeData_grows by (auto simp: cascade_def split: if_splits)

lemma recordState_connections [simp]: "connections (recordState s) = connections s"
  by (simp add: recordState_def Let_def)

subsection \<open>A run returns or throws unless user code does not return\<close>

lemma filterFrom_total:
  "(\<forall>args. f args \<noteq> Diverges) \<Longrightarrow> filterFrom f arr i xs \<noteq> None"
proof (induction xs arbitrary: i)
  case Nil
  then show ?case by simp
next
  case (Cons x xs)
  have "filterFrom f arr (Suc i) xs \<noteq> None" using Cons.prems by (rule Cons.IH)
  then show ?case using Cons.prems by (auto split: callResult.splits sum.splits)
qed

lemma mapFrom_total:
  "(\<forall>args. f args \<noteq> Diverges) \<Longrightarrow> mapFrom f arr i xs \<noteq> None"
proof (induction xs arbitrary: i)
  case Nil
  then show ?case by simp
next
  case (Cons x xs)
  have "mapFrom f arr (Suc i) xs \<noteq> None" using Cons.prems by (rule Cons.IH)
  then show ?case using Cons.prems by (auto split: callResult.splits sum.splits)
qed

lemma processFilterNode_total:
  assumes "hostTerminates h"
  shows "processFilterNode h s nodeData \<noteq> None"
proof -
  have nf: False if "newFunction h body = Inr f" and "arrayFilter f rows = None" for body f rows
  proof -
    have "\<forall>args. f args \<noteq> Diverges" using assms that(1) unfolding hostTerminates_def by blast
    then have "filterFrom f rows 0 rows \<noteq> None" by (rule filterFrom_total)
    then show False using that(2) by (simp add: arrayFilter_def)
  qed
  show ?thesis
    unfolding processFilterNode_def
    by (auto split: option.splits sum.splits val.splits outcome.splits dest: nf)
qed

lemma processTransformNode_total:
  assumes "hostTerminates h"
  shows "processTransformNode h s nodeData \<noteq> None"
proof -
  have nf: False if "newFunction h body = Inr f" and "arrayMapCall f rows = None" for body f rows
  proof -
    have "\<forall>args. f args \<noteq> Diverges" using assms that(1) unfolding hostTerminates_def by blast
    then have "mapFrom f rows 0 rows \<noteq> None" by (rule mapFrom_total)
    then show False using that(2) by (simp add: arrayMapCall_def)
  qed
  show ?thesis
    unfolding processTransformNode_def
    by (auto split: option.splits sum.splits val.splits outcome.splits dest: nf)
qed

lemma runProcessor_total:
  assumes "hostTerminates h"
  shows "runProcessor h s nodeData \<noteq> None"
proof (cases "nodeProcessors h (ntype nodeData)")
  case None
  then show ?thesis by (simp add: runProcessor_def)
next
  case (Some processor)
  have ext: "externalProcessor h t s nodeData \<noteq> None" for t
    using assms by (simp add: hostTerminates_def)
  have "processor s nodeData \<noteq> None"
    using Some processFilterNode_total [OF assms] processTransformNode_total [OF assms] ext
    by (auto simp: nodeProcessors_def inheritedMember_def split: if_splits)
  then show ?thesis using Some by (simp add: runProcessor_def)
qed

lemma processNodeData_total:
  assumes "hostTerminates h"
  shows "processNodeData h k n s \<noteq> None"
proof (induction k arbitrary: n s)
  case 0
  then show ?case by simp
next
  case (Suc k)
  show ?case
  proof (cases "nodesGet s n")
    case None
    then show ?thesis by (simp add: processNodeData_unfold)
  next
    case (Some nd)
    let ?s0 = "s\<lparr>processedLog := processedLog s @ [n]\<rparr>"
    obtain o1 where o1: "runProcessor h ?s0 nd = Some o1"
      using runProcessor_total [OF assms, of ?s0 nd] by auto
    show ?thesis
    proof (cases o1)
      case (Throws e nd')
      then show ?thesis using Some o1 by (simp add: processNodeData_unfold)
    next
      case (Returns nd')
      have "forEachM (cascade h k n) (connections s) (nodesSet n nd' ?s0) \<noteq> None"
        using Suc.IH by (intro forEachM_total) (simp add: cascade_def)
      then show ?thesis using Some o1 Returns by (simp add: processNodeData_unfold)
    qed
  qed
qed

subsection \<open>A run that returns has processed every node it can reach\<close>

lemma forEachM_returns_each:
  assumes "forEachM f xs s = Some (Returns s')" and "x \<in> set xs"
    and "\<forall>y\<in>set xs. \<forall>a r. f y a = Some r \<longrightarrow> grows a (stateOf r)"
  shows "\<exists>a b. grows s a \<and> f x a = Some (Returns b) \<and> grows b s'"
  using assms
proof (induction xs arbitrary: s)
  case Nil
  then show ?case by simp
next
  case (Cons y ys)
  obtain s1 where s1: "f y s = Some (Returns s1)" and rest: "forEachM f ys s1 = Some (Returns s')"
    using Cons.prems(1) by (auto split: option.splits outcome.splits)
  have g1: "grows s s1" using Cons.prems(3) s1 by fastforce
  have steps: "\<forall>y\<in>set ys. \<forall>a r. f y a = Some r \<longrightarrow> grows a (stateOf r)"
    using Cons.prems(3) by simp
  have tail: "grows s1 s'"
  proof -
    have "\<forall>y\<in>set ys. \<forall>a r. grows s1 a \<longrightarrow> f y a = Some r \<longrightarrow> grows s1 (stateOf r)"
      using steps by (blast intro: grows_trans)
    then have "grows s1 (stateOf (Returns s'))"
      by (intro forEachM_invariant [where P = "grows s1", OF rest]) simp_all
    then show ?thesis by simp
  qed
  show ?case
  proof (cases "x = y")
    case True
    then show ?thesis using s1 tail by (intro exI [of _ s] exI [of _ s1]) simp
  next
    case False
    then have "x \<in> set ys" using Cons.prems(2) by simp
    then obtain a b where "grows s1 a" and "f x a = Some (Returns b)" and "grows b s'"
      using Cons.IH [OF rest _ steps] by blast
    then show ?thesis using g1 by (blast intro: grows_trans)
  qed
qed

lemma edge_connection:
  "(n, b) \<in> edges s \<Longrightarrow> b \<in> nodeIds s \<and> (\<exists>c\<in>set (connections s). node (cfrom c) = n \<and> node (cto c) = b)"
  by (auto simp: edges_def edgeList_def)

lemma processNodeData_covers:
  "processNodeData h k n s = Some (Returns s') \<Longrightarrow> n \<in> nodeIds s \<Longrightarrow> (n, m) \<in> (edges s)\<^sup>* \<Longrightarrow>
   m \<in> set (newlyProcessed s s')"
proof (induction k arbitrary: n s s' m)
  case 0
  then show ?case by simp
next
  case (Suc k)
  let ?s0 = "s\<lparr>processedLog := processedLog s @ [n]\<rparr>"
  obtain nd where nd: "nodesGet s n = Some nd"
    using nodesGet_present [OF Suc.prems(2)] by auto
  obtain nd' where run: "forEachM (cascade h k n) (connections s) (nodesSet n nd' ?s0) = Some (Returns s')"
    using Suc.prems(1) nd by (auto simp: processNodeData_unfold split: option.splits outcome.splits)
  let ?s1 = "nodesSet n nd' ?s0"
  have key: "n \<in> set (map fst (nodes s))" using nd by (rule nodesGet_key)
  have g01: "grows s ?s1"
  proof (rule growsI [where new = "[n]"])
    show "sameFrame s ?s1" using key by (rule sameFrame_nodesSet)
    show "processedLog ?s1 = processedLog s @ [n]" by (simp add: nodesSet_def)
  qed
  have steps: "\<forall>c\<in>set (connections s). \<forall>a r. cascade h k n c a = Some r \<longrightarrow> grows a (stateOf r)"
    using cascade_grows by blast
  have g1: "grows ?s1 s'"
  proof -
    have "\<forall>c\<in>set (connections s). \<forall>a r. grows ?s1 a \<longrightarrow> cascade h k n c a = Some r \<longrightarrow> grows ?s1 (stateOf r)"
      using steps by (blast intro: grows_trans)
    then have "grows ?s1 (stateOf (Returns s'))"
      by (intro forEachM_invariant [where P = "grows ?s1", OF run]) simp_all
    then show ?thesis by simp
  qed
  show ?case
  proof (cases "m = n")
    case True
    have "processedLog s' = processedLog ?s1 @ newlyProcessed ?s1 s'"
      using g1 by (rule grows_log)
    then have "processedLog s' = processedLog s @ n # newlyProcessed ?s1 s'"
      by (simp add: nodesSet_def)
    then have "newlyProcessed s s' = n # newlyProcessed ?s1 s'"
      by (simp add: newlyProcessed_def [of s s'])
    then show ?thesis using True by simp
  next
    case False
    then obtain b where nb: "(n, b) \<in> edges s" and bm: "(b, m) \<in> (edges s)\<^sup>*"
      using Suc.prems(3) by (auto elim: converse_rtranclE)
    obtain c where c: "c \<in> set (connections s)" "node (cfrom c) = n" "node (cto c) = b" and b: "b \<in> nodeIds s"
      using edge_connection [OF nb] by auto
    obtain a z where a: "grows ?s1 a" and call: "cascade h k n c a = Some (Returns z)" and z: "grows z s'"
      using forEachM_returns_each [OF run c(1) steps] by blast
    have sa: "grows s a" using g01 a by (rule grows_trans)
    have call': "processNodeData h k b a = Some (Returns z)"
      using call c by (simp add: cascade_def)
    have "m \<in> set (newlyProcessed a z)"
      using Suc.IH [OF call'] b bm grows_frame [OF sa] by simp
    moreover have "grows a z" using processNodeData_grows [OF call'] by simp
    ultimately show ?thesis using newlyProcessed_between [OF sa _ z] by blast
  qed
qed


section \<open>Connecting to an occupied input\<close>

lemma inertHost_terminates: "hostTerminates inertHost"
  by (simp add: hostTerminates_def inertHost_def)

lemma completeConnection_total:
  assumes "hostTerminates h"
  shows "completeConnection h depth targetSocket s \<noteq> None"
proof -
  have "processNodeData h depth n s' \<noteq> None" for n s'
    using assms by (rule processNodeData_total)
  then show ?thesis
    by (simp add: completeConnection_def Let_def del: not_None_eq split: option.split outcome.split)
qed

text \<open>
  Claim C2. \<^verbatim>\<open>completeConnection\<close> goes through when a wire is being dragged and the target
  is an input socket of another node. Then, whenever user code returns or throws, the call
  ends (it returns, or an exception of the propagation it starts leaves it), and however
  it ends the connection list holds exactly one connection into that socket: the new one,
  which is also the last of the list. Any connection that led into the socket before is
  gone. This holds for every graph, also when the new wire closes a cycle and the
  propagation exhausts the call stack: the list is rewritten before the propagation
  starts.
\<close>

theorem completeConnection_single_target:
  assumes "connectionStart s = Some start"
    and "isInput targetSocket"
    and "node start \<noteq> ownerId targetSocket"
  shows "(hostTerminates h \<longrightarrow> (\<exists>r. completeConnection h depth targetSocket s = Some r)) \<and>
         (\<forall>r. completeConnection h depth targetSocket s = Some r \<longrightarrow>
            filter (targets (ownerId targetSocket) (socketName targetSocket)) (connections (stateOf r))
              = [\<lparr>cfrom = \<lparr>node = node start, socket = socket start\<rparr>,
                  cto = \<lparr>node = ownerId targetSocket, socket = socketName targetSocket\<rparr>\<rparr>] \<and>
            last (connections (stateOf r))
              = \<lparr>cfrom = \<lparr>node = node start, socket = socket start\<rparr>,
                 cto = \<lparr>node = ownerId targetSocket, socket = socketName targetSocket\<rparr>\<rparr>)"
proof (intro conjI allI impI)
  assume "hostTerminates h"
  then show "\<exists>r. completeConnection h depth targetSocket s = Some r"
    using completeConnection_total [of h depth targetSocket s] by auto
next
  fix r
  assume complete: "completeConnection h depth targetSocket s = Some r"
  let ?new = "\<lparr>cfrom = \<lparr>node = node start, socket = socket start\<rparr>,
               cto = \<lparr>node = ownerId targetSocket, socket = socketName targetSocket\<rparr>\<rparr>"
  let ?cs = "filter (\<lambda>c. \<not> targets (ownerId targetSocket) (socketName targetSocket) c) (connections s) @ [?new]"
  let ?s2 = "recordState (s\<lparr>connections := ?cs\<rparr>)"
  obtain r' where run: "processNodeData h depth (ownerId targetSocket) ?s2 = Some r'"
    and conns: "connections (stateOf r) = connections (stateOf r')"
    using assms complete by (auto simp: completeConnection_def Let_def split: option.splits outcome.splits)
  have "connections (stateOf r') = ?cs"
    using processNodeData_frame [OF run] by (simp add: sameFrame_def)
  then have all: "connections (stateOf r) = ?cs" using conns by simp
  show "filter (targets (ownerId targetSocket) (socketName targetSocket)) (connections (stateOf r)) = [?new]"
    using all by (simp add: targets_def)
  show "last (connections (stateOf r)) = ?new"
    using all by simp
qed

lemma connectState_completes:
  "map_option (\<lambda>r. (threw r, connections (stateOf r))) (completeConnection inertHost 2 connectTarget connectState)
     = Some (False, [wire ''node_2'' ''data_out'' ''node_1'' ''text_in''])"
  by code_simp

lemma cycleState_completes:
  "map_option (\<lambda>r. (threw r, connections (stateOf r))) (completeConnection inertHost 4 cycleTarget cycleState)
     = Some (True, [wire ''node_0'' ''text_out'' ''node_1'' ''text_in'', wire ''node_1'' ''text_out'' ''node_0'' ''text_in''])"
  by code_simp

text \<open>Two runs: a wire onto the occupied input of \<open>node_1\<close> replaces the wire that was there;
  a wire that closes a cycle ends with the stack exhausted, and is in the list as the only
  connection into its socket.\<close>

theorem completeConnection_single_target_witness:
  "hostTerminates inertHost \<and>
   connections connectState = [wire ''node_0'' ''text_out'' ''node_1'' ''text_in''] \<and>
   (\<exists>r. completeConnection inertHost 2 connectTarget connectState = Some r \<and>
        filter (targets ''node_1'' ''text_in'') (connections (stateOf r))
          = [wire ''node_2'' ''data_out'' ''node_1'' ''text_in''] \<and>
        last (connections (stateOf r)) = wire ''node_2'' ''data_out'' ''node_1'' ''text_in'') \<and>
   (\<exists>r. completeConnection inertHost 4 cycleTarget cycleState = Some r \<and>
        filter (targets ''node_0'' ''text_in'') (connections (stateOf r))
          = [wire ''node_1'' ''text_out'' ''node_0'' ''text_in''] \<and>
        map_option threw (completeConnection inertHost 4 cycleTarget cycleState) = Some True)"
proof -
  have start: "connectionStart connectState = Some \<lparr>node = ''node_2'', socket = ''data_out''\<rparr>"
    by (simp add: connectState_def Let_def)
  have conns: "connections connectState = [wire ''node_0'' ''text_out'' ''node_1'' ''text_in'']"
    by (simp add: connectState_def Let_def)
  have start': "connectionStart cycleState = Some \<lparr>node = ''node_1'', socket = ''text_out''\<rparr>"
    by (simp add: cycleState_def)
  have one: "\<exists>r. completeConnection inertHost 2 connectTarget connectState = Some r \<and>
        filter (targets ''node_1'' ''text_in'') (connections (stateOf r))
          = [wire ''node_2'' ''data_out'' ''node_1'' ''text_in''] \<and>
        last (connections (stateOf r)) = wire ''node_2'' ''data_out'' ''node_1'' ''text_in''"
    using completeConnection_single_target [OF start, of connectTarget inertHost 2] inertHost_terminates
    by (auto simp: connectTarget_def wire_def)
  have two: "\<exists>r. completeConnection inertHost 4 cycleTarget cycleState = Some r \<and>
        filter (targets ''node_0'' ''text_in'') (connections (stateOf r))
          = [wire ''node_1'' ''text_out'' ''node_0'' ''text_in'']"
    using completeConnection_single_target [OF start', of cycleTarget inertHost 4] inertHost_terminates
    by (auto simp: cycleTarget_def wire_def)
  have thrown: "map_option threw (completeConnection inertHost 4 cycleTarget cycleState) = Some True"
    using cycleState_completes by (auto simp: map_option_case split: option.splits)
  show ?thesis using inertHost_terminates conns one two thrown by blast
qed


section \<open>Nodes without a processor\<close>

lemma update_same: "map_of al k = Some v \<Longrightarrow> AList.update k v al = al"
  by (induction al) (auto split: if_splits)

lemma nodesGet_nodesSet:
  "nodesGet (nodesSet n nd s) m = (if m = n then Some nd else nodesGet s m)"
  by (simp add: nodesGet_def nodesSet_def update_conv')

lemma nodesGet_log [simp]: "nodesGet (s\<lparr>processedLog := l\<rparr>) m = nodesGet s m"
  by (simp add: nodesGet_def)

lemma runProcessor_none: "nodeProcessors h (ntype nd) = None \<Longrightarrow> runProcessor h s nd = Some (Returns nd)"
  by (simp add: runProcessor_def)

lemma nodesSet_same: "nodesGet s n = Some nd \<Longrightarrow> nodesSet n nd s = s"
  by (simp add: nodesGet_def nodesSet_def update_same)

lemma processNodeData_keeps_unprocessed:
  assumes "nodeProcessors h (ntype md) = None"
  shows "nodesGet s m = Some md \<Longrightarrow> processNodeData h k n s = Some r \<Longrightarrow> nodesGet (stateOf r) m = Some md"
proof (induction k arbitrary: n s r)
  case 0
  then show ?case by auto
next
  case (Suc k)
  show ?case
  proof (cases "nodesGet s n")
    case None
    then show ?thesis using Suc.prems by (auto simp: processNodeData_unfold)
  next
    case (Some nd)
    let ?s0 = "s\<lparr>processedLog := processedLog s @ [n]\<rparr>"
    obtain o1 where o1: "runProcessor h ?s0 nd = Some o1"
      using Suc.prems Some by (cases "runProcessor h ?s0 nd") (auto simp: processNodeData_unfold)
    have written: "nodesGet (nodesSet n (stateOf o1) ?s0) m = Some md"
    proof (cases "m = n")
      case True
      then have "nd = md" using Some Suc.prems(1) by simp
      then have "o1 = Returns md" using assms o1 by (simp add: runProcessor_none)
      then show ?thesis using True by (simp add: nodesGet_nodesSet)
    next
      case False
      then show ?thesis using Suc.prems(1) by (simp add: nodesGet_nodesSet)
    qed
    show ?thesis
    proof (cases o1)
      case (Throws e nd')
      then have "r = Throws e (nodesSet n nd' ?s0)"
        using Suc.prems Some o1 by (simp add: processNodeData_unfold)
      then show ?thesis using written Throws by simp
    next
      case (Returns nd')
      have run: "forEachM (cascade h k n) (connections s) (nodesSet n nd' ?s0) = Some r"
        using Suc.prems Some o1 Returns by (simp add: processNodeData_unfold)
      have start: "nodesGet (nodesSet n nd' ?s0) m = Some md" using written Returns by simp
      have step: "\<forall>c\<in>set (connections s). \<forall>s' r'. nodesGet s' m = Some md \<longrightarrow> cascade h k n c s' = Some r' \<longrightarrow>
          nodesGet (stateOf r') m = Some md"
        using Suc.IH by (auto simp: cascade_def split: if_splits)
      show ?thesis
        by (rule forEachM_invariant [where P = "\<lambda>s'. nodesGet s' m = Some md", OF run start step])
    qed
  qed
qed

text \<open>A type that names an inherited member of the registry object does find something:
  the member is called and, but for \<^verbatim>\<open>constructor\<close> and \<^verbatim>\<open>toString\<close>, throws before the cascade.\<close>

lemma inherited_member_is_called:
  "map_option (\<lambda>processor. processor s nodeData) (nodeProcessors h ''valueOf'')
     = Some (Some (Throws ''Cannot convert undefined or null to object'' nodeData)) \<and>
   map_option (\<lambda>processor. processor s nodeData) (nodeProcessors h ''__proto__'')
     = Some (Some (Throws ''processor is not a function'' nodeData)) \<and>
   map_option (\<lambda>processor. processor s nodeData) (nodeProcessors h ''constructor'')
     = Some (Some (Returns nodeData))"
  by (simp add: nodeProcessors_def externalTypes_def objectPrototypeKeys_def inheritedMember_def)

lemma forEachM_skip:
  "\<forall>x\<in>set xs. f x = (\<lambda>s. Some (Returns s)) \<Longrightarrow> forEachM f xs s = Some (Returns s)"
  by (induction xs) simp_all

lemma processNodeData_cascades:
  assumes "nodesGet s n = Some nd" and "nodeProcessors h (ntype nd) = None"
  shows "processNodeData h (Suc k) n s
           = forEachM (cascade h k n) (connections s) (s\<lparr>processedLog := processedLog s @ [n]\<rparr>)"
proof -
  let ?s0 = "s\<lparr>processedLog := processedLog s @ [n]\<rparr>"
  have "nodesSet n nd ?s0 = ?s0"
    using assms(1) by (intro nodesSet_same) simp
  then show ?thesis
    using assms by (simp add: processNodeData_unfold runProcessor_none)
qed

text \<open>
  Claim C6, as the code has it. Take a node for whose type the lookup in the registry
  finds nothing (no entry, and not the name of a member every object inherits).
  \<^verbatim>\<open>processNodeData\<close> runs no processor for it and goes straight on to the cascade: the call
  is the \<^verbatim>\<open>forEach\<close> over the connection list, which passes the call on along every
  connection that leaves the node. Whenever user code returns or throws, the call ends.
  However it ends, the node's own data (its outputs included) is as before. When it
  returns, every node that can be reached from the node along connections has been
  processed. When no connection leaves the node, the call returns and changes no node at
  all (only the log of processed nodes grows).
\<close>

theorem processNodeData_without_processor:
  assumes "nodesGet s n = Some nd" and "nodeProcessors h (ntype nd) = None"
  shows "processNodeData h (Suc k) n s
           = forEachM (cascade h k n) (connections s) (s\<lparr>processedLog := processedLog s @ [n]\<rparr>) \<and>
         (hostTerminates h \<longrightarrow> (\<exists>r. processNodeData h k n s = Some r)) \<and>
         (\<forall>r. processNodeData h k n s = Some r \<longrightarrow> nodesGet (stateOf r) n = Some nd) \<and>
         (\<forall>s' m. processNodeData h k n s = Some (Returns s') \<longrightarrow> (n, m) \<in> (edges s)\<^sup>* \<longrightarrow>
            m \<in> set (newlyProcessed s s')) \<and>
         ((\<forall>c\<in>set (connections s). node (cfrom c) \<noteq> n) \<longrightarrow>
            processNodeData h (Suc k) n s = Some (Returns (s\<lparr>processedLog := processedLog s @ [n]\<rparr>)))"
proof (intro conjI allI impI)
  show "processNodeData h (Suc k) n s
           = forEachM (cascade h k n) (connections s) (s\<lparr>processedLog := processedLog s @ [n]\<rparr>)"
    using assms by (rule processNodeData_cascades)
next
  assume "hostTerminates h"
  then show "\<exists>r. processNodeData h k n s = Some r"
    using processNodeData_total [of h k n s] by auto
next
  fix r
  assume "processNodeData h k n s = Some r"
  then show "nodesGet (stateOf r) n = Some nd"
    using processNodeData_keeps_unprocessed [OF assms(2) assms(1)] by simp
next
  fix s' m
  assume run: "processNodeData h k n s = Some (Returns s')" and reach: "(n, m) \<in> (edges s)\<^sup>*"
  have "n \<in> nodeIds s"
    using nodesGet_key [OF assms(1)] by (simp add: nodeIds_def)
  then show "m \<in> set (newlyProcessed s s')"
    using run reach by (intro processNodeData_covers)
next
  assume none: "\<forall>c\<in>set (connections s). node (cfrom c) \<noteq> n"
  let ?s0 = "s\<lparr>processedLog := processedLog s @ [n]\<rparr>"
  have "forEachM (cascade h k n) (connections s) ?s0 = Some (Returns ?s0)"
    using none by (intro forEachM_skip) (auto simp: cascade_def)
  then show "processNodeData h (Suc k) n s = Some (Returns ?s0)"
    using processNodeData_cascades [OF assms] by simp
qed

lemma loadedState_container: "map_option ntype (nodesGet loadedState ''node_0'') = Some ''container''"
  by code_simp

lemma loadedState_cascade:
  "map_option (\<lambda>r. (threw r, newlyProcessed loadedState (stateOf r)))
      (processNodeData inertHost 2 ''node_0'' loadedState) = Some (False, [''node_0'', ''node_1''])"
  by code_simp

lemma loadedState_edges: "edgeList loadedState = [(''node_0'', ''node_1'')]"
  by code_simp

lemma container_unregistered: "nodeProcessors h ''container'' = None"
  by (simp add: nodeProcessors_def externalTypes_def objectPrototypeKeys_def)

text \<open>The container \<open>node_0\<close> wired to the import node \<open>node_1\<close>: processing the container
  returns, has left the container as it was and has processed both nodes; without the
  wire it processes the container alone and changes nothing.\<close>

theorem processNodeData_without_processor_witness:
  "\<exists>nd. nodesGet loadedState ''node_0'' = Some nd \<and> nodeProcessors inertHost (ntype nd) = None \<and>
     hostTerminates inertHost \<and>
     (''node_0'', ''node_1'') \<in> (edges loadedState)\<^sup>* \<and>
     (\<exists>s'. processNodeData inertHost 2 ''node_0'' loadedState = Some (Returns s') \<and>
        newlyProcessed loadedState s' = [''node_0'', ''node_1''] \<and>
        ''node_1'' \<in> set (newlyProcessed loadedState s') \<and>
        nodesGet s' ''node_0'' = Some nd) \<and>
     processNodeData inertHost 1 ''node_0'' (loadedState\<lparr>connections := []\<rparr>)
       = Some (Returns (loadedState\<lparr>connections := [], processedLog := [''node_0'']\<rparr>))"
proof -
  obtain nd where nd: "nodesGet loadedState ''node_0'' = Some nd" and t: "ntype nd = ''container''"
    using loadedState_container by auto
  have none: "nodeProcessors inertHost (ntype nd) = None"
    using t by (simp add: container_unregistered)
  have edge: "(''node_0'', ''node_1'') \<in> (edges loadedState)\<^sup>*"
    by (rule r_into_rtrancl) (simp add: edges_def loadedState_edges)
  obtain r where r: "processNodeData inertHost 2 ''node_0'' loadedState = Some r"
    and ok: "\<not> threw r" and log: "newlyProcessed loadedState (stateOf r) = [''node_0'', ''node_1'']"
    using loadedState_cascade by auto
  obtain s' where s': "r = Returns s'" using ok by (cases r) auto
  have run: "processNodeData inertHost 2 ''node_0'' loadedState = Some (Returns s')"
    using r s' by simp
  have kept: "nodesGet s' ''node_0'' = Some nd"
    using processNodeData_without_processor [OF nd none, of 2] run by auto
  have covered: "''node_1'' \<in> set (newlyProcessed loadedState s')"
    using processNodeData_without_processor [OF nd none, of 2] run edge by blast
  have nd': "nodesGet (loadedState\<lparr>connections := []\<rparr>) ''node_0'' = Some nd"
    using nd by (simp add: nodesGet_def)
  have empty: "processedLog loadedState = []"
    by code_simp
  have "processNodeData inertHost (Suc 0) ''node_0'' (loadedState\<lparr>connections := []\<rparr>)
      = Some (Returns (loadedState\<lparr>connections := [], processedLog := processedLog loadedState @ [''node_0'']\<rparr>))"
    using processNodeData_without_processor [OF nd' none, of 0] by simp
  then have alone: "processNodeData inertHost 1 ''node_0'' (loadedState\<lparr>connections := []\<rparr>)
      = Some (Returns (loadedState\<lparr>connections := [], processedLog := [''node_0'']\<rparr>))"
    using empty by simp
  show ?thesis
    using nd none inertHost_terminates edge run log s' covered kept alone by auto
qed

text \<open>The claim as stated fails: the container \<open>node_0\<close> has no processor, and processing
  it changes the outputs of the import node its connection leads to.\<close>

theorem processNodeData_without_processor_counterexample:
  "map_option ntype (nodesGet loadedState ''node_0'') = Some ''container'' \<and>
   nodeProcessors inertHost ''container'' = None \<and>
   map_option outputs (nodesGet loadedState ''node_1'') = Some [] \<and>
   map_option (\<lambda>r. map_option outputs (nodesGet (stateOf r) ''node_1''))
      (processNodeData inertHost 2 ''node_0'' loadedState)
     = Some (Some [(''data_out'', VStr ''hi'')])"
  by code_simp


section \<open>Errors while loading\<close>

lemma recordState_alerts [simp]: "alerts (recordState s) = alerts s"
  by (simp add: recordState_def Let_def)









text \<open>A session whose connections form a cycle: the propagation exhausts the call stack
  inside the \<^verbatim>\<open>try\<close> block, the \<^verbatim>\<open>RangeError\<close> is caught and notified like any other, and the
  nodes and connections of the session stay.\<close>

lemma cyclic_session_notifies:
  "map_option (\<lambda>s. (map fst (nodes s), length (connections s), alerts s, isRestoring (hist s)))
      (deserialize inertHost 6 (JsonDoc cyclicDoc) connectState)
     = Some ([''node_0'', ''node_1''], 2, [loadErrorMessage], False)"
  by code_simp






section \<open>The aggregate processor\<close>

lemma scenario_groups:
  "groupRows fmt ''cat'' scenarioRows [] =
     Inr [(''x'', VArr [VObj [(''cat'', VStr ''x''), (''v'', VStr ''1'')], VObj [(''cat'', VStr ''x''), (''v'', VStr ''2'')]]),
          (''y'', VArr [VObj [(''cat'', VStr ''y''), (''v'', VStr ''5'')]])]"
  by (simp add: scenarioRows_def objGet_def objectPrototypeKeys_def Let_def)

lemma parse1: "parseFloatStr ''1'' = Fin 1" by code_simp
lemma parse2: "parseFloatStr ''2'' = Fin 2" by code_simp
lemma parse5: "parseFloatStr ''5'' = Fin 5" by code_simp

lemma scenario_keys: "ownKeys [(''x'', a), (''y'', b)] = [''x'', ''y'']"
  by (simp add: ownKeys_def isArrayIndex_def isDigit_def digitVal_def)

lemma scenario_aggregate:
  "arrayMap (aggregateGroup fmt ''cat'' ''sum'' ''v''
      [(''x'', VArr [VObj [(''cat'', VStr ''x''), (''v'', VStr ''1'')], VObj [(''cat'', VStr ''x''), (''v'', VStr ''2'')]]),
       (''y'', VArr [VObj [(''cat'', VStr ''y''), (''v'', VStr ''5'')]])])
     [''x'', ''y''] = Inr scenarioResult"
  by (simp add: aggregateGroup_def aggregateValue_def objGet_def parseFloatOrZero_def parse1 parse2 parse5
      scenarioResult_def)

text \<open>
  Claim C9. An aggregate node with \<^verbatim>\<open>groupBy = "cat"\<close>, \<^verbatim>\<open>aggFunc = "sum"\<close>, \<^verbatim>\<open>aggKey = "v"\<close>
  whose input is the array of Scenario B produces
  \<^verbatim>\<open>[{cat:"x", sum_of_v:3}, {cat:"y", sum_of_v:5}]\<close> on \<^verbatim>\<open>data_out\<close>, in any graph and with any
  host.
\<close>

theorem aggregate_scenario:
  assumes "controls nodeData =
             [inputParam ''groupBy'' ''cat'', selectParam ''aggFunc'' ''sum'', inputParam ''aggKey'' ''v'']"
    and "status nodeData = Some st"
    and "findInput s (elementId nodeData) ''data_in'' = Some inputConn"
    and "readSource s inputConn = Inr (VArr scenarioRows)"
  shows "processAggregateNode h s nodeData =
           Returns (nodeData\<lparr>outputs := AList.update ''data_out'' (VArr scenarioResult) (outputs nodeData),
                             status := Some ''Aggregated 3 rows into 2 groups.''\<rparr>)"
proof -
  have q: "queryParam [TextInput, Checkbox] ''groupBy'' nodeData = Some (inputParam ''groupBy'' ''cat'')"
      "queryParam [Select] ''aggFunc'' nodeData = Some (selectParam ''aggFunc'' ''sum'')"
      "queryParam [TextInput, Checkbox] ''aggKey'' nodeData = Some (inputParam ''aggKey'' ''v'')"
    using assms(1) by (simp_all add: queryParam_def inputParam_def selectParam_def)
  have n3: "showNat 3 = ''3''" and n2: "showNat 2 = ''2''"
    by (simp_all add: showNat.simps)
  have len: "length scenarioRows = 3" "length scenarioResult = 2"
    by (simp_all add: scenarioRows_def scenarioResult_def)
  show ?thesis
    unfolding processAggregateNode_def
    using assms(2,3,4)
    by (simp add: q inputParam_def selectParam_def scenario_groups scenario_keys scenario_aggregate
        setStatus_def setOutput_def len n3 n2 del: arrayMap.simps)
qed

lemma tableState_aggregate:
  "map_option (\<lambda>nd. (controls nd, status nd, elementId nd, outputs nd)) (nodesGet tableState ''node_1'')
     = Some ([inputParam ''groupBy'' ''cat'', selectParam ''aggFunc'' ''sum'', inputParam ''aggKey'' ''v''],
             Some [], ''node_1'', [])"
  by code_simp

lemma tableState_aggregate_input:
  "findInput tableState ''node_1'' ''data_in'' = Some (wire ''node_0'' ''data_out'' ''node_1'' ''data_in'')"
  by code_simp

lemma tableState_source:
  "readSource tableState (wire ''node_0'' ''data_out'' n x) = Inr (VArr scenarioRows)"
  by (simp add: wire_def readSource_def tableState_def) code_simp

theorem aggregate_scenario_witness:
  "\<exists>nd. nodesGet tableState ''node_1'' = Some nd \<and>
     processAggregateNode inertHost tableState nd =
       Returns (nd\<lparr>outputs := [(''data_out'', VArr scenarioResult)],
                   status := Some ''Aggregated 3 rows into 2 groups.''\<rparr>)"
proof -
  obtain nd where nd: "nodesGet tableState ''node_1'' = Some nd"
    and c: "controls nd = [inputParam ''groupBy'' ''cat'', selectParam ''aggFunc'' ''sum'', inputParam ''aggKey'' ''v'']"
    and st: "status nd = Some []" and i: "elementId nd = ''node_1''" and o: "outputs nd = []"
    using tableState_aggregate by auto
  have f: "findInput tableState (elementId nd) ''data_in'' = Some (wire ''node_0'' ''data_out'' ''node_1'' ''data_in'')"
    using i tableState_aggregate_input by simp
  show ?thesis
    using aggregate_scenario [OF c st f tableState_source, of inertHost] nd o by simp
qed


section \<open>The filter processor\<close>

lemma message_readable: "e \<noteq> VNull \<Longrightarrow> e \<noteq> VUndefined \<Longrightarrow> \<exists>m. getProp e ''message'' = Inr m"
  by (cases e) simp_all

text \<open>What the \<^verbatim>\<open>catch\<close> block of the filter processor does with an error that carries a
  message, and with any thrown value other than \<^verbatim>\<open>null\<close> and \<^verbatim>\<open>undefined\<close>: the processor
  returns, \<^verbatim>\<open>data_out\<close> is the empty array and the status of the node reports the error.\<close>

lemma processFilterNode_contains:
  assumes "findInput s (elementId nodeData) ''data_in'' = Some inputConn"
    and "readSource s inputConn = Inr (VArr rows)"
    and "queryParam [Textarea] ''condition'' nodeData = Some el"
    and "status nodeData = Some st"
    and "cvalue el \<noteq> []"
    and "(\<exists>m. newFunction h (''return '' @ cvalue el) = Inl m) \<or>
         (\<exists>f e. newFunction h (''return '' @ cvalue el) = Inr f \<and> arrayFilter f rows = Some (Inl e) \<and>
                e \<noteq> VNull \<and> e \<noteq> VUndefined)"
  shows "\<exists>msg. processFilterNode h s nodeData =
           Some (Returns (nodeData\<lparr>outputs := AList.update ''data_out'' (VArr []) (outputs nodeData),
                                   status := Some (''Error: '' @ msg)\<rparr>))"
  using assms(6)
proof (elim disjE exE conjE)
  fix m
  assume "newFunction h (''return '' @ cvalue el) = Inl m"
  then show ?thesis
    using assms(1-5)
    by (auto simp: processFilterNode_def catchToStatus_def errorObject_def objGet_def setStatus_def setOutput_def)
next
  fix f e
  assume f: "newFunction h (''return '' @ cvalue el) = Inr f" and e: "arrayFilter f rows = Some (Inl e)"
    and "e \<noteq> VNull" and "e \<noteq> VUndefined"
  then obtain m where "getProp e ''message'' = Inr m"
    using message_readable by blast
  then show ?thesis
    using assms(1-5) f e
    by (auto simp: processFilterNode_def catchToStatus_def setStatus_def setOutput_def)
qed

text \<open>
  Claim C7 asks that the filter processor let no exception out, whatever the condition
  text, and record the failure on the node. Its \<^verbatim>\<open>catch\<close> block does that for an error that
  carries a message, and reads \<^verbatim>\<open>e.message\<close> of whatever was thrown: for the condition
  \<^verbatim>\<open>(() => { throw null })()\<close> on the three rows of the table, reading the message of
  \<^verbatim>\<open>null\<close> throws a TypeError inside the \<^verbatim>\<open>catch\<close> block. The exception leaves the processor and
  \<^verbatim>\<open>processNodeData\<close>; \<^verbatim>\<open>data_out\<close> has been emptied, the status text is the one the node was
  created with.
\<close>

theorem filter_throw_null_escapes:
  "map_option (\<lambda>nd. (ntype nd, map cvalue (controls nd), status nd, outputs nd)) (nodesGet filterThrowState ''node_1'')
     = Some (''filter'', [''(() => { throw null })()''], Some [], []) \<and>
   map_option (readSource filterThrowState) (findInput filterThrowState ''node_1'' ''data_in'')
     = Some (Inr (VArr scenarioRows)) \<and>
   Option.bind (nodesGet filterThrowState ''node_1'') (processFilterNode throwNullHost filterThrowState)
     = map_option (\<lambda>nd. Throws (typeErrorRead ''null'') (nd\<lparr>outputs := [(''data_out'', VArr [])]\<rparr>))
         (nodesGet filterThrowState ''node_1'') \<and>
   map_option (\<lambda>r. (threw r, map_option (\<lambda>nd. (status nd, outputs nd)) (nodesGet (stateOf r) ''node_1'')))
      (processNodeData throwNullHost 1 ''node_1'' filterThrowState)
     = Some (True, Some (Some [], [(''data_out'', VArr [])]))"
  by code_simp


section \<open>The merge processor\<close>

text \<open>On rows that are records the processor joins on the key. The table merged with
  itself on \<^verbatim>\<open>cat\<close>: the \<^verbatim>\<open>Map\<close> keeps the last right row of each key, so both rows of \<^verbatim>\<open>x\<close> take
  the fields of the second.\<close>

lemma merge_joins_on_key:
  "map_option (\<lambda>nd. case processMergeNode inertHost tableState nd of
                       r \<Rightarrow> (threw r, status (stateOf r), outputs (stateOf r)))
      (nodesGet tableState ''node_3'')
     = Some (False, Some ''Merged 3 and 3 rows into 3.'',
             [(''data_out'', VArr [VObj [(''cat'', VStr ''x''), (''v'', VStr ''2'')],
                                   VObj [(''cat'', VStr ''x''), (''v'', VStr ''2'')],
                                   VObj [(''cat'', VStr ''y''), (''v'', VStr ''5'')]])])"
  by code_simp

text \<open>Keys that are objects are one key only when they are one object: of two entries whose
  keys have the same contents, the one the heap says is the key asked for is found.\<close>

lemma mapGet_by_reference:
  "mapGet (\<lambda>j. j = 0)
     [(VObj [(''a'', VNull)], VStr ''first''), (VObj [(''a'', VNull)], VStr ''second'')]
     (VObj [(''a'', VNull)]) = VStr ''first''"
  by code_simp

text \<open>
  Claim C10 asks for one merged record per record of the left input whenever both inputs
  are arrays. The processor reads the join key of every row of the right input without
  looking at the row: with the three rows of the table on the left, the array \<^verbatim>\<open>[null]\<close> on
  the right and the join key \<^verbatim>\<open>cat\<close>, reading \<^verbatim>\<open>item[rightKey]\<close> of \<^verbatim>\<open>null\<close> throws a TypeError.
  Nothing catches it: the exception leaves the processor and \<^verbatim>\<open>processNodeData\<close>, no output
  is written and the status text is the one the node was created with.
\<close>

theorem merge_null_row_throws:
  "map_option (\<lambda>nd. (ntype nd, map cvalue (controls nd), status nd, outputs nd)) (nodesGet mergeNullState ''node_2'')
     = Some (''merge'', [''cat''], Some [], []) \<and>
   map_option (readSource mergeNullState) (findInput mergeNullState ''node_2'' ''data_in_1'')
     = Some (Inr (VArr scenarioRows)) \<and>
   map_option (readSource mergeNullState) (findInput mergeNullState ''node_2'' ''data_in_2'')
     = Some (Inr (VArr [VNull])) \<and>
   map_option (processMergeNode inertHost mergeNullState) (nodesGet mergeNullState ''node_2'')
     = map_option (Throws (typeErrorRead ''null'')) (nodesGet mergeNullState ''node_2'') \<and>
   map_option (\<lambda>r. (threw r, map_option (\<lambda>nd. (status nd, outputs nd)) (nodesGet (stateOf r) ''node_2'')))
      (processNodeData inertHost 1 ''node_2'' mergeNullState)
     = Some (True, Some (Some [], []))"
  by code_simp


section \<open>Propagation through a processor that throws\<close>

lemma throwState_edges:
  "edgeList throwState = [(''node_0'', ''node_1''), (''node_1'', ''node_2'')]"
  by code_simp

lemma throwState_acyclic: "acyclic (edges throwState)"
  unfolding edges_def by code_simp

text \<open>
  Claim C1 asks that on an acyclic graph \<^verbatim>\<open>processNodeData\<close> process every node that can be
  reached from the root. A JSON node that has parsed \<^verbatim>\<open>[null]\<close> feeds the aggregate node
  \<open>node_1\<close>, which feeds the text node \<open>node_2\<close>: the graph is acyclic and \<open>node_2\<close> can be
  reached from \<open>node_1\<close>. The aggregate processor reads \<^verbatim>\<open>row[groupBy]\<close> of the row \<^verbatim>\<open>null\<close>, which
  throws a TypeError; nothing catches it, the exception leaves \<^verbatim>\<open>processNodeData\<close> and
  \<open>node_2\<close> is never processed.
\<close>

theorem aggregate_null_row_stops_propagation:
  "acyclic (edges throwState) \<and>
   ''node_1'' \<in> nodeIds throwState \<and>
   (''node_1'', ''node_2'') \<in> (edges throwState)\<^sup>* \<and>
   map_option (readSource throwState) (findInput throwState ''node_1'' ''data_in'') = Some (Inr (VArr [VNull])) \<and>
   map_option (\<lambda>r. (threw r, processedLog (stateOf r))) (processNodeData inertHost 3 ''node_1'' throwState)
     = Some (True, [''node_1''])"
proof -
  have "(''node_1'', ''node_2'') \<in> edges throwState"
    by (simp add: edges_def throwState_edges)
  then have "(''node_1'', ''node_2'') \<in> (edges throwState)\<^sup>*" by (rule r_into_rtrancl)
  moreover have "''node_1'' \<in> nodeIds throwState"
    unfolding nodeIds_def by code_simp
  moreover have "map_option (readSource throwState) (findInput throwState ''node_1'' ''data_in'') = Some (Inr (VArr [VNull]))"
    by code_simp
  moreover have "map_option (\<lambda>r. (threw r, processedLog (stateOf r))) (processNodeData inertHost 3 ''node_1'' throwState)
     = Some (True, [''node_1''])"
    by code_simp
  ultimately show ?thesis using throwState_acyclic by simp
qed


section \<open>Round trips through a snapshot\<close>

text \<open>
  Claim C3 asks that \<^verbatim>\<open>deserialize(serialize(G))\<close> reproduce the parameter values of \<open>G\<close>. The
  code does not, for a text node: \<^verbatim>\<open>serialize\<close> stores the textarea under the key of its
  \<^verbatim>\<open>data-output\<close> attribute, \<^verbatim>\<open>text_out\<close>, and \<^verbatim>\<open>createTextNodeContent\<close> fills the textarea from
  \<^verbatim>\<open>options.text\<close>. A text node holding \<^verbatim>\<open>hello\<close> comes back with its id, type and position
  and with an empty textarea. The import node, whose template reads
  \<^verbatim>\<open>options.data_out || options.text\<close>, comes back with its text.
\<close>

theorem deserialize_serialize_loses_text:
  "shape (typedState ''text'') = [(''node_0'', ''text'', (50, 50), [''hello''])] \<and>
   map_option shape (deserialize inertHost 1 (serialize (typedState ''text'')) (typedState ''text''))
     = Some [(''node_0'', ''text'', (50, 50), [[]])] \<and>
   shape (typedState ''import'') = [(''node_0'', ''import'', (50, 50), [''hello''])] \<and>
   map_option shape (deserialize inertHost 1 (serialize (typedState ''import'')) (typedState ''import''))
     = Some [(''node_0'', ''import'', (50, 50), [''hello''])]"
  by code_simp

text \<open>
  Claim C4 asks that n-1 undos followed by n-1 redos restore the state reached after the
  last of n recorded edits. After three recorded edits (start, create a text node, type
  \<^verbatim>\<open>hello\<close>) they restore both stacks, and \<^verbatim>\<open>redo\<close> rebuilds the graph from the last snapshot
  with \<^verbatim>\<open>deserialize\<close>: the text node is back, its text is not.
\<close>

theorem undo_redo_loses_text:
  "length (undoStack (hist (typedState ''text''))) = 3 \<and>
   shape (typedState ''text'') = [(''node_0'', ''text'', (50, 50), [''hello''])] \<and>
   map_option (\<lambda>s. (undoStack (hist s) = undoStack (hist (typedState ''text'')), redoStack (hist s), shape s))
      (undoTwiceRedoTwice inertHost 1 (typedState ''text''))
     = Some (True, [], [(''node_0'', ''text'', (50, 50), [[]])])"
  by code_simp

end
